theory Spec2Isabelle
  imports
    Main
    "HOL-Library.Char_ord"
    "HOL-Library.List_Lexorder"
    "HOL-Library.Multiset"
begin

section \<open>The persistent store\<close>

text \<open>
  Both programs (\<^verbatim>\<open>pos_system.py\<close>, the text menu, and \<^verbatim>\<open>pos_frontend.py\<close>, the web
  front end) work on the same two tables, \<^verbatim>\<open>inventory\<close> and \<^verbatim>\<open>sales\<close>.  A table is the
  list of its rows in insertion order and a row is a record of its columns.

  \<^item> \<^verbatim>\<open>INTEGER\<close> columns hold Python integers: \<open>int\<close>.  The flags \<^verbatim>\<open>cancelled\<close> and
    \<^verbatim>\<open>favorite\<close> are \<^verbatim>\<open>INTEGER\<close> columns as well, tested by Python truthiness (non-zero).
    The store is the SQLite one, the default of both programs.  Its integers have 64 bits
    (\<open>sqlite_integer\<close>).  The driver raises \<^verbatim>\<open>OverflowError\<close> for a Python integer beyond
    them; this is modelled where the catalogue binds a quantity the user typed.  In the
    ledger the integers are added and subtracted as integers, which is what SQLite does
    while the result has 64 bits; past them it stores a \<^verbatim>\<open>REAL\<close>, for which the column
    of the model has no value, so the theorems on an addition assume that its result has
    64 bits.  An id a ledger function is called with is taken to have 64 bits.
  \<^item> \<^verbatim>\<open>REAL\<close> columns hold Python floats.  Their type is the parameter \<open>'p\<close>, and the one
    float operation the ledger performs, \<^verbatim>\<open>row["price"] * quantity\<close>, is the parameter
    \<open>mul\<close> of the functions that use it: no property of floating-point arithmetic is
    assumed.
  \<^item> \<^verbatim>\<open>TEXT\<close> columns are strings; \<^verbatim>\<open>image_path\<close> may be \<^verbatim>\<open>NULL\<close>.  The timestamp is the
    text \<^verbatim>\<open>datetime.now().isoformat(timespec="seconds")\<close>, compared as text by
    \<^verbatim>\<open>ORDER BY\<close>; the clock reading is an argument of the functions that take it.
\<close>

type_synonym timestamp = string

record 'p inventory_row =
  inv_id :: int
  inv_name :: string
  inv_price :: 'p
  inv_quantity :: int
  inv_image_path :: "string option"
  inv_favorite :: int

record 'p sales_row =
  sale_id :: int
  sale_item_id :: int
  sale_quantity :: int
  sale_timestamp :: timestamp
  sale_total_price :: 'p
  sale_cancelled :: int

text \<open>
  The connection is the state of the database.  \<open>inventory_seq\<close> and \<open>sales_seq\<close> are the
  counters behind \<^verbatim>\<open>id INTEGER PRIMARY KEY AUTOINCREMENT\<close> (\<^verbatim>\<open>SERIAL\<close> on PostgreSQL): the
  largest id the table has handed out.
\<close>

record 'p conn =
  inventory :: "'p inventory_row list"
  inventory_seq :: int
  sales :: "'p sales_row list"
  sales_seq :: int

text \<open>The values of an \<^verbatim>\<open>INTEGER\<close> column, and the integers the driver binds.\<close>

definition sqlite_integer :: "int \<Rightarrow> bool" where
  "sqlite_integer n \<longleftrightarrow> - (2 ^ 63) \<le> n \<and> n < 2 ^ 63"

text \<open>
  The exceptions of the driver: \<^verbatim>\<open>OverflowError\<close> on binding an integer that has not 64 bits,
  \<^verbatim>\<open>IntegrityError\<close> when a statement would leave \<^verbatim>\<open>NULL\<close> in a \<^verbatim>\<open>NOT NULL\<close> column.  The
  driver binds a float that is not a number as \<^verbatim>\<open>NULL\<close>; \<^verbatim>\<open>math.isnan\<close> is the parameter
  \<open>isnan\<close> of the functions that bind a price.  A statement that raises changes nothing.
\<close>

datatype db_error = IntegrityError | OverflowError

subsection \<open>SQL statements\<close>

text \<open>\<^verbatim>\<open>UPDATE t SET ... WHERE cond\<close>: every row that satisfies the condition is rewritten.\<close>

definition update_where :: "('r \<Rightarrow> bool) \<Rightarrow> ('r \<Rightarrow> 'r) \<Rightarrow> 'r list \<Rightarrow> 'r list" where
  "update_where cond f rows = map (\<lambda>r. if cond r then f r else r) rows"

text \<open>\<^verbatim>\<open>DELETE FROM t WHERE cond\<close>.\<close>

definition delete_where :: "('r \<Rightarrow> bool) \<Rightarrow> 'r list \<Rightarrow> 'r list" where
  "delete_where cond rows = filter (\<lambda>r. \<not> cond r) rows"

text \<open>\<^verbatim>\<open>SELECT ... FROM inventory WHERE id = ?\<close> followed by \<^verbatim>\<open>fetchone()\<close>.\<close>

definition select_item :: "'p conn \<Rightarrow> int \<Rightarrow> 'p inventory_row option" where
  "select_item db i = find (\<lambda>r. inv_id r = i) (inventory db)"

text \<open>\<^verbatim>\<open>SELECT cancelled, item_id, quantity FROM sales WHERE id = ?\<close> followed by \<^verbatim>\<open>fetchone()\<close>.\<close>

definition select_sale :: "'p conn \<Rightarrow> int \<Rightarrow> 'p sales_row option" where
  "select_sale db i = find (\<lambda>s. sale_id s = i) (sales db)"

text \<open>
  The id \<^verbatim>\<open>AUTOINCREMENT\<close> gives a new row: one more than the largest id the table has ever
  held, which is the larger of the counter and the ids present.
\<close>

definition next_rowid :: "int \<Rightarrow> int list \<Rightarrow> int" where
  "next_rowid seq ids = fold max ids seq + 1"

text \<open>
  \<^verbatim>\<open>INSERT INTO sales (item_id, quantity, timestamp, total_price) VALUES (?, ?, ?, ?)\<close>: the id
  is generated and \<^verbatim>\<open>cancelled\<close> takes its default 0.
\<close>

definition insert_sale :: "int \<Rightarrow> int \<Rightarrow> timestamp \<Rightarrow> 'p \<Rightarrow> 'p conn \<Rightarrow> 'p conn" where
  "insert_sale item_id quantity ts amount db =
     (let new_id = next_rowid (sales_seq db) (map sale_id (sales db)) in
      db\<lparr>sales := sales db @
            [\<lparr>sale_id = new_id, sale_item_id = item_id, sale_quantity = quantity,
              sale_timestamp = ts, sale_total_price = amount, sale_cancelled = 0\<rparr>],
         sales_seq := new_id\<rparr>)"

text \<open>
  \<^verbatim>\<open>UPDATE inventory SET quantity = quantity - ? WHERE id = ?\<close> and its twin with \<^verbatim>\<open>+\<close>.
  The difference and the sum are those of SQLite while they have 64 bits.
\<close>

definition deduct_quantity :: "int \<Rightarrow> int \<Rightarrow> 'p conn \<Rightarrow> 'p conn" where
  "deduct_quantity quantity item_id db =
     db\<lparr>inventory := update_where (\<lambda>r. inv_id r = item_id)
           (\<lambda>r. r\<lparr>inv_quantity := inv_quantity r - quantity\<rparr>) (inventory db)\<rparr>"

definition restore_quantity :: "int \<Rightarrow> int \<Rightarrow> 'p conn \<Rightarrow> 'p conn" where
  "restore_quantity quantity item_id db =
     db\<lparr>inventory := update_where (\<lambda>r. inv_id r = item_id)
           (\<lambda>r. r\<lparr>inv_quantity := inv_quantity r + quantity\<rparr>) (inventory db)\<rparr>"

text \<open>\<^verbatim>\<open>UPDATE sales SET cancelled = ? WHERE id = ?\<close>.\<close>

definition set_cancelled :: "int \<Rightarrow> int \<Rightarrow> 'p conn \<Rightarrow> 'p conn" where
  "set_cancelled flag sid db =
     db\<lparr>sales := update_where (\<lambda>s. sale_id s = sid) (\<lambda>s. s\<lparr>sale_cancelled := flag\<rparr>) (sales db)\<rparr>"

section \<open>The sale ledger\<close>

text \<open>
  The ledger functions return a status message, an f-string in the source.  The messages
  are the constructors of \<open>sale_msg\<close>, with the values the f-string interpolates as
  arguments.
\<close>

datatype 'p sale_msg =
    Item_does_not_exist int
  | Quantity_must_be_positive
  | Insufficient_stock int
  | Sold int string 'p timestamp

text \<open>\<^verbatim>\<open>record_sale_db(conn, item_id, quantity)\<close> of \<^verbatim>\<open>pos_frontend.py\<close>.\<close>

definition record_sale_db ::
  "('p \<Rightarrow> int \<Rightarrow> 'p) \<Rightarrow> timestamp \<Rightarrow> 'p conn \<Rightarrow> int \<Rightarrow> int \<Rightarrow> 'p sale_msg \<times> 'p conn" where
  "record_sale_db mul now db item_id quantity =
     (case select_item db item_id of
        None \<Rightarrow> (Item_does_not_exist item_id, db)
      | Some row \<Rightarrow>
          if quantity \<le> 0 then (Quantity_must_be_positive, db)
          else if inv_quantity row < quantity then (Insufficient_stock (inv_quantity row), db)
          else
            let total_v = mul (inv_price row) quantity;
                db1 = deduct_quantity quantity item_id db;
                db2 = insert_sale item_id quantity now total_v db1
            in (Sold quantity (inv_name row) total_v now, db2))"


text \<open>
  The remaining ledger functions return constant strings; each is a constructor of
  \<open>ledger_msg\<close>:
  \<^item> \<open>Sale_not_found\<close>: \<^verbatim>\<open>"Sale not found."\<close>
  \<^item> \<open>Sale_already_cancelled\<close>: \<^verbatim>\<open>"Sale has already been cancelled."\<close>
  \<^item> \<open>Sale_cancelled_restored\<close>: \<^verbatim>\<open>"Sale cancelled and inventory restored."\<close>
  \<^item> \<open>Sale_deleted_adjusted\<close>: \<^verbatim>\<open>"Sale deleted permanently and inventory adjusted."\<close>
  \<^item> \<open>Sale_deleted\<close>: \<^verbatim>\<open>"Sale deleted permanently."\<close>
  \<^item> \<open>Sale_is_not_cancelled\<close>: \<^verbatim>\<open>"Sale is not cancelled."\<close>
  \<^item> \<open>Associated_item_not_found\<close>: \<^verbatim>\<open>"Associated item not found."\<close>
  \<^item> \<open>Not_enough_stock\<close>: \<^verbatim>\<open>"Not enough stock to uncancel this sale."\<close>
  \<^item> \<open>Sale_uncancelled\<close>: the message that the sale was un-cancelled and the inventory updated.
\<close>

datatype ledger_msg =
    Sale_not_found
  | Sale_already_cancelled
  | Sale_cancelled_restored
  | Sale_deleted_adjusted
  | Sale_deleted
  | Sale_is_not_cancelled
  | Associated_item_not_found
  | Not_enough_stock
  | Sale_uncancelled

text \<open>\<^verbatim>\<open>cancel_sale_db(conn, sale_id)\<close>.\<close>

definition cancel_sale_db :: "'p conn \<Rightarrow> int \<Rightarrow> ledger_msg \<times> 'p conn" where
  "cancel_sale_db db sid =
     (case select_sale db sid of
        None \<Rightarrow> (Sale_not_found, db)
      | Some row \<Rightarrow>
          if sale_cancelled row \<noteq> 0 then (Sale_already_cancelled, db)
          else
            let db1 = set_cancelled 1 sid db;
                db2 = restore_quantity (sale_quantity row) (sale_item_id row) db1
            in (Sale_cancelled_restored, db2))"

text \<open>\<^verbatim>\<open>delete_sale_db(conn, sale_id)\<close>.\<close>

definition delete_sale_db :: "'p conn \<Rightarrow> int \<Rightarrow> ledger_msg \<times> 'p conn" where
  "delete_sale_db db sid =
     (case select_sale db sid of
        None \<Rightarrow> (Sale_not_found, db)
      | Some row \<Rightarrow>
          let db1 = (if \<not> sale_cancelled row \<noteq> 0
                     then restore_quantity (sale_quantity row) (sale_item_id row) db
                     else db);
              db2 = db1\<lparr>sales := delete_where (\<lambda>s. sale_id s = sid) (sales db1)\<rparr>
          in (if \<not> sale_cancelled row \<noteq> 0 then Sale_deleted_adjusted else Sale_deleted, db2))"

text \<open>\<^verbatim>\<open>uncancel_sale_db(conn, sale_id)\<close>.\<close>

definition uncancel_sale_db :: "'p conn \<Rightarrow> int \<Rightarrow> ledger_msg \<times> 'p conn" where
  "uncancel_sale_db db sid =
     (case select_sale db sid of
        None \<Rightarrow> (Sale_not_found, db)
      | Some row \<Rightarrow>
          if \<not> sale_cancelled row \<noteq> 0 then (Sale_is_not_cancelled, db)
          else
            (case select_item db (sale_item_id row) of
               None \<Rightarrow> (Associated_item_not_found, db)
             | Some item_row \<Rightarrow>
                 if inv_quantity item_row < sale_quantity row then (Not_enough_stock, db)
                 else
                   let db1 = deduct_quantity (sale_quantity row) (sale_item_id row) db;
                       db2 = set_cancelled 0 sid db1
                   in (Sale_uncancelled, db2)))"

subsection \<open>Listing the sales\<close>

text \<open>
  \<^verbatim>\<open>list_sales(conn)\<close>: the rows of
  \<^verbatim>\<open>SELECT sales.id, inventory.name AS item_name, sales.quantity, sales.total_price,
  sales.timestamp, sales.cancelled FROM sales JOIN inventory ON sales.item_id = inventory.id
  ORDER BY sales.timestamp DESC\<close>.
  The inner join pairs every sale with every inventory row of its item id.  The sort is
  stable: rows with equal timestamps stay in the order of the join, as SQLite returns
  them.
\<close>

record 'p listing_row =
  ls_id :: int
  ls_item_name :: string
  ls_quantity :: int
  ls_total_price :: 'p
  ls_timestamp :: timestamp
  ls_cancelled :: int

definition listing :: "'p sales_row \<Rightarrow> 'p inventory_row \<Rightarrow> 'p listing_row" where
  "listing s r =
     \<lparr>ls_id = sale_id s, ls_item_name = inv_name r, ls_quantity = sale_quantity s,
      ls_total_price = sale_total_price s, ls_timestamp = sale_timestamp s,
      ls_cancelled = sale_cancelled s\<rparr>"

definition join_sales_inventory :: "'p conn \<Rightarrow> 'p listing_row list" where
  "join_sales_inventory db =
     concat (map (\<lambda>s. map (listing s) (filter (\<lambda>r. sale_item_id s = inv_id r) (inventory db)))
                 (sales db))"

definition order_by_desc :: "('r \<Rightarrow> 'k::linorder) \<Rightarrow> 'r list \<Rightarrow> 'r list" where
  "order_by_desc key rows = rev (sort_key key (rev rows))"

definition list_sales :: "'p conn \<Rightarrow> 'p listing_row list" where
  "list_sales db = order_by_desc ls_timestamp (join_sales_inventory db)"

section \<open>Checkout\<close>

text \<open>
  The cart is a dictionary in the session, from the item id as text to a quantity: an
  association list in insertion order.  \<^verbatim>\<open>int(item_id_str)\<close> is the parameter \<open>to_int\<close>,
  \<open>None\<close> where Python raises \<^verbatim>\<open>ValueError\<close>; the exception leaves the loop and the handler.
  \<open>clock k\<close> is the reading of \<^verbatim>\<open>datetime.now()\<close> while line \<open>k\<close> of the cart is sold.
\<close>

datatype py_error = ValueError

text \<open>The \<^verbatim>\<open>for\<close> loop of \<^verbatim>\<open>checkout()\<close>; \<open>messages\<close> is the list it appends to.\<close>

fun checkout_loop ::
  "(string \<Rightarrow> int option) \<Rightarrow> ('p \<Rightarrow> int \<Rightarrow> 'p) \<Rightarrow> (nat \<Rightarrow> timestamp) \<Rightarrow> nat \<Rightarrow> 'p conn \<Rightarrow>
   (string \<times> int) list \<Rightarrow> 'p sale_msg list \<Rightarrow> (py_error + 'p sale_msg list) \<times> 'p conn" where
  "checkout_loop to_int mul clock k db [] messages = (Inr messages, db)"
| "checkout_loop to_int mul clock k db ((item_id_str, qty) # cart) messages =
     (case to_int item_id_str of
        None \<Rightarrow> (Inl ValueError, db)
      | Some item_id \<Rightarrow>
          (case record_sale_db mul (clock k) db item_id qty of
             (msg, db') \<Rightarrow> checkout_loop to_int mul clock (Suc k) db' cart (messages @ [msg])))"

datatype 'p checkout_result =
    Cart_is_empty
  | Checkout_complete "'p sale_msg list"
  | Raised py_error

text \<open>
  \<^verbatim>\<open>checkout()\<close>: the result, the cart left in the session and the database.  The cart is
  emptied only when the loop has run to its end.
\<close>

definition checkout ::
  "(string \<Rightarrow> int option) \<Rightarrow> ('p \<Rightarrow> int \<Rightarrow> 'p) \<Rightarrow> (nat \<Rightarrow> timestamp) \<Rightarrow> (string \<times> int) list \<Rightarrow>
   'p conn \<Rightarrow> 'p checkout_result \<times> (string \<times> int) list \<times> 'p conn" where
  "checkout to_int mul clock cart db =
     (if cart = [] then (Cart_is_empty, cart, db)
      else
        (case checkout_loop to_int mul clock 0 db cart [] of
           (Inl e, db') \<Rightarrow> (Raised e, cart, db')
         | (Inr messages, db') \<Rightarrow> (Checkout_complete messages, [], db')))"

section \<open>The catalogue\<close>

subsection \<open>Strings\<close>

text \<open>
  A character is a code point below 256.  \<^verbatim>\<open>str.strip()\<close> removes the characters for which
  \<^verbatim>\<open>str.isspace()\<close> holds from both ends: in this range the code points 9 to 13, 28 to 32,
  133 and 160.  \<^verbatim>\<open>str.lower()\<close> moves \<^verbatim>\<open>A\<close> to \<^verbatim>\<open>Z\<close> and the capital letters 192 to 222
  (215, the multiplication sign, apart) up by 32.
\<close>

definition isspace :: "char \<Rightarrow> bool" where
  "isspace c = (of_char c \<in> set [9, 10, 11, 12, 13, 28, 29, 30, 31, 32, 133, 160 :: nat])"

definition strip :: "string \<Rightarrow> string" where
  "strip s = rev (dropWhile isspace (rev (dropWhile isspace s)))"

definition lower_char :: "char \<Rightarrow> char" where
  "lower_char c =
     (let n = of_char c :: nat in
      if (65 \<le> n \<and> n \<le> 90) \<or> (192 \<le> n \<and> n \<le> 222 \<and> n \<noteq> 215) then char_of (n + 32) else c)"

definition lower :: "string \<Rightarrow> string" where
  "lower s = map lower_char s"

text \<open>\<^verbatim>\<open>filename.rsplit(".", 1)[-1]\<close>: what follows the last dot, or the whole name.\<close>

definition rsplit_last :: "string \<Rightarrow> string" where
  "rsplit_last filename = rev (takeWhile (\<lambda>c. c \<noteq> CHR ''.'') (rev filename))"

definition ALLOWED_EXTENSIONS :: "string set" where
  "ALLOWED_EXTENSIONS = {''png'', ''jpg'', ''jpeg'', ''gif'', ''webp''}"

subsection \<open>Adding an item\<close>

text \<open>
  \<^verbatim>\<open>add_item_with_image(conn, name, price, quantity, image_path)\<close>:
  \<^verbatim>\<open>INSERT INTO inventory (name, price, quantity, image_path) VALUES (?, ?, ?, ?)\<close> with
  \<^verbatim>\<open>name.strip()\<close>; the id is generated and \<^verbatim>\<open>favorite\<close> takes its default 0.  Binding the
  quantity raises \<^verbatim>\<open>OverflowError\<close> when it has not 64 bits; otherwise the statement runs
  and raises \<^verbatim>\<open>IntegrityError\<close> when the price is not a number.
\<close>

definition add_item_with_image ::
  "('p \<Rightarrow> bool) \<Rightarrow> 'p conn \<Rightarrow> string \<Rightarrow> 'p \<Rightarrow> int \<Rightarrow> string option \<Rightarrow> db_error + 'p conn" where
  "add_item_with_image isnan db name price quantity image_path =
     (if \<not> sqlite_integer quantity then Inl OverflowError
      else if isnan price then Inl IntegrityError
      else
        let new_id = next_rowid (inventory_seq db) (map inv_id (inventory db)) in
        Inr (db\<lparr>inventory := inventory db @
                  [\<lparr>inv_id = new_id, inv_name = strip name, inv_price = price,
                    inv_quantity = quantity, inv_image_path = image_path, inv_favorite = 0\<rparr>],
                inventory_seq := new_id\<rparr>))"

text \<open>
  The \<^verbatim>\<open>POST\<close> branch of the route \<^verbatim>\<open>add_item()\<close>.  The form holds the three text fields
  (a missing field reads as the empty string) and the name of the uploaded file, if any.
  \<^verbatim>\<open>float(price_str)\<close> and \<^verbatim>\<open>int(qty_str)\<close> are the parameters \<open>to_float\<close> and \<open>to_int\<close>,
  \<open>None\<close> where Python raises \<^verbatim>\<open>ValueError\<close>; \<open>uuid_hex\<close> is \<^verbatim>\<open>uuid4().hex\<close>.  The flashed
  messages are the constructors of \<open>add_item_flash\<close>.  An exception of the driver leaves
  the route, and the connection rolls back: the result is the exception and the database
  as it was.
\<close>

record add_item_form =
  form_name :: string
  form_price :: string
  form_quantity :: string
  form_image :: "string option"

datatype add_item_flash =
    Item_name_cannot_be_empty
  | Enter_valid_numeric_values
  | Unsupported_image_type
  | Item_added string

text \<open>
  The handling of the upload: no path without a file, a refusal for an extension that is
  not allowed, and the path \<^verbatim>\<open>uploads/<uuid>.<ext>\<close> otherwise.
\<close>

definition upload_image :: "string \<Rightarrow> string option \<Rightarrow> add_item_flash + string option" where
  "upload_image uuid_hex image_file =
     (case image_file of
        None \<Rightarrow> Inr None
      | Some filename \<Rightarrow>
          if filename = [] then Inr None
          else
            let ext = lower (rsplit_last filename) in
            if ext \<notin> ALLOWED_EXTENSIONS then Inl Unsupported_image_type
            else
              let unique_name = uuid_hex @ ''.'' @ ext;
                  image_path = ''uploads/'' @ unique_name
              in Inr (Some image_path))"

definition add_item ::
  "('p \<Rightarrow> bool) \<Rightarrow> (string \<Rightarrow> 'p option) \<Rightarrow> (string \<Rightarrow> int option) \<Rightarrow> string \<Rightarrow>
   add_item_form \<Rightarrow> 'p conn \<Rightarrow> (db_error + add_item_flash) \<times> 'p conn" where
  "add_item isnan to_float to_int uuid_hex form db =
     (let name = strip (form_name form);
          price_str = strip (form_price form);
          qty_str = strip (form_quantity form)
      in
      if name = [] then (Inr Item_name_cannot_be_empty, db)
      else
        (case to_float price_str of
           None \<Rightarrow> (Inr Enter_valid_numeric_values, db)
         | Some price \<Rightarrow>
             (case to_int qty_str of
                None \<Rightarrow> (Inr Enter_valid_numeric_values, db)
              | Some quantity \<Rightarrow>
                  (case upload_image uuid_hex (form_image form) of
                     Inl refusal \<Rightarrow> (Inr refusal, db)
                   | Inr image_path \<Rightarrow>
                       (case add_item_with_image isnan db name price quantity image_path of
                          Inl e \<Rightarrow> (Inl e, db)
                        | Inr db' \<Rightarrow> (Inr (Item_added name), db'))))))"

subsection \<open>Editing and deleting an item\<close>

text \<open>
  \<^verbatim>\<open>update_item_db\<close> of \<^verbatim>\<open>pos_frontend.py\<close> builds the \<^verbatim>\<open>SET\<close> clause from the arguments
  that are not \<^verbatim>\<open>None\<close>; an assignment is a column with its new value.
\<close>

datatype 'p assignment =
    Set_name string
  | Set_price 'p
  | Set_quantity int
  | Set_image_path string

fun assign :: "'p assignment \<Rightarrow> 'p inventory_row \<Rightarrow> 'p inventory_row" where
  "assign (Set_name v) r = r\<lparr>inv_name := v\<rparr>"
| "assign (Set_price v) r = r\<lparr>inv_price := v\<rparr>"
| "assign (Set_quantity v) r = r\<lparr>inv_quantity := v\<rparr>"
| "assign (Set_image_path v) r = r\<lparr>inv_image_path := Some v\<rparr>"

text \<open>
  The \<^verbatim>\<open>UPDATE\<close> binds the new values and the id.  Binding raises \<^verbatim>\<open>OverflowError\<close> for a
  quantity or an id that has not 64 bits; the statement raises \<^verbatim>\<open>IntegrityError\<close> when it
  would store a price that is not a number, which takes a row of that id.  The result is
  the exception, if any, and the database.
\<close>

definition update_item_db ::
  "('p \<Rightarrow> bool) \<Rightarrow> 'p conn \<Rightarrow> int \<Rightarrow> string option \<Rightarrow> 'p option \<Rightarrow> int option \<Rightarrow> string option \<Rightarrow>
   db_error option \<times> 'p conn" where
  "update_item_db isnan db item_id name price quantity image_path =
     (let fields =
            (case name of None \<Rightarrow> [] | Some v \<Rightarrow> [Set_name (strip v)]) @
            (case price of None \<Rightarrow> [] | Some v \<Rightarrow> [Set_price v]) @
            (case quantity of None \<Rightarrow> [] | Some v \<Rightarrow> [Set_quantity v]) @
            (case image_path of None \<Rightarrow> [] | Some v \<Rightarrow> [Set_image_path v])
      in
      if fields = [] then (None, db)
      else if (case quantity of None \<Rightarrow> False | Some v \<Rightarrow> \<not> sqlite_integer v) \<or>
              \<not> sqlite_integer item_id
      then (Some OverflowError, db)
      else if (case price of None \<Rightarrow> False | Some v \<Rightarrow> isnan v) \<and>
              select_item db item_id \<noteq> None
      then (Some IntegrityError, db)
      else (None,
            db\<lparr>inventory := update_where (\<lambda>r. inv_id r = item_id) (fold assign fields)
                                (inventory db)\<rparr>))"

text \<open>The lines the text menu prints.\<close>

datatype cli_msg =
    No_item_found int
  | Item_updated int
  | Item_deleted string

text \<open>
  \<^verbatim>\<open>update_item(conn, item_id, name, price, quantity)\<close> of \<^verbatim>\<open>pos_system.py\<close>.  The test
  \<^verbatim>\<open>if name\<close> fails for \<^verbatim>\<open>None\<close> and for the empty string.  The \<^verbatim>\<open>SELECT\<close> binds the id
  and the \<^verbatim>\<open>UPDATE\<close> binds the three new values, with the exceptions of \<open>update_item_db\<close>.
\<close>

definition update_item ::
  "('p \<Rightarrow> bool) \<Rightarrow> 'p conn \<Rightarrow> int \<Rightarrow> string option \<Rightarrow> 'p option \<Rightarrow> int option \<Rightarrow>
   (db_error + cli_msg) \<times> 'p conn" where
  "update_item isnan db item_id name price quantity =
     (if \<not> sqlite_integer item_id then (Inl OverflowError, db)
      else
        (case select_item db item_id of
           None \<Rightarrow> (Inr (No_item_found item_id), db)
         | Some row \<Rightarrow>
             let new_name = (case name of
                               None \<Rightarrow> inv_name row
                             | Some v \<Rightarrow> if v \<noteq> [] then strip v else inv_name row);
                 new_price = (case price of None \<Rightarrow> inv_price row | Some v \<Rightarrow> v);
                 new_quantity = (case quantity of None \<Rightarrow> inv_quantity row | Some v \<Rightarrow> v)
             in
             if \<not> sqlite_integer new_quantity then (Inl OverflowError, db)
             else if isnan new_price then (Inl IntegrityError, db)
             else
               (Inr (Item_updated item_id),
                db\<lparr>inventory := update_where (\<lambda>r. inv_id r = item_id)
                      (\<lambda>r. r\<lparr>inv_name := new_name, inv_price := new_price,
                              inv_quantity := new_quantity\<rparr>)
                      (inventory db)\<rparr>)))"

text \<open>\<^verbatim>\<open>delete_item(conn, item_id)\<close> of \<^verbatim>\<open>pos_system.py\<close>; the sales are left alone.\<close>

definition delete_item :: "'p conn \<Rightarrow> int \<Rightarrow> cli_msg \<times> 'p conn" where
  "delete_item db item_id =
     (case select_item db item_id of
        None \<Rightarrow> (No_item_found item_id, db)
      | Some row \<Rightarrow>
          (Item_deleted (inv_name row),
           db\<lparr>inventory := delete_where (\<lambda>r. inv_id r = item_id) (inventory db)\<rparr>))"

section \<open>Sequences of ledger operations\<close>







section \<open>Example data\<close>

text \<open>
  The scenario of the specification: item 1 (``Tea'') has quantity 10 and price 2.  In the
  examples prices are integers and \<open>mul\<close> is integer multiplication.
\<close>

definition tea :: "int inventory_row" where
  "tea = \<lparr>inv_id = 1, inv_name = ''Tea'', inv_price = 2, inv_quantity = 10,
          inv_image_path = None, inv_favorite = 0\<rparr>"

definition shop :: "int conn" where
  "shop = \<lparr>inventory = [tea], inventory_seq = 1, sales = [], sales_seq = 0\<rparr>"

text \<open>
  The states of the scenario: after three units of tea are sold, after that sale is
  cancelled, and the first of the two after the item is deleted, which leaves the sale
  without its item.
\<close>

definition tea_sale :: "int sales_row" where
  "tea_sale = \<lparr>sale_id = 1, sale_item_id = 1, sale_quantity = 3,
               sale_timestamp = ''2024-05-01T10:00:00'', sale_total_price = 6,
               sale_cancelled = 0\<rparr>"

definition shop_sold :: "int conn" where
  "shop_sold = \<lparr>inventory = [tea\<lparr>inv_quantity := 7\<rparr>], inventory_seq = 1,
                sales = [tea_sale], sales_seq = 1\<rparr>"

definition shop_cancelled :: "int conn" where
  "shop_cancelled = \<lparr>inventory = [tea], inventory_seq = 1,
                     sales = [tea_sale\<lparr>sale_cancelled := 1\<rparr>], sales_seq = 1\<rparr>"

definition shop_orphan :: "int conn" where
  "shop_orphan = \<lparr>inventory = [], inventory_seq = 1, sales = [tea_sale], sales_seq = 1\<rparr>"

text \<open>
  A database with two items and three sales: one in force, a later one cancelled, and the
  latest one on item 9, which is not in the inventory.
\<close>

definition coffee :: "int inventory_row" where
  "coffee = \<lparr>inv_id = 2, inv_name = ''Coffee'', inv_price = 5, inv_quantity = 4,
             inv_image_path = None, inv_favorite = 1\<rparr>"

definition shop_history :: "int conn" where
  "shop_history =
     \<lparr>inventory = [tea\<lparr>inv_quantity := 7\<rparr>, coffee], inventory_seq = 9,
      sales = [tea_sale,
               \<lparr>sale_id = 2, sale_item_id = 2, sale_quantity = 1,
                sale_timestamp = ''2024-05-01T10:05:00'', sale_total_price = 5,
                sale_cancelled = 1\<rparr>,
               \<lparr>sale_id = 3, sale_item_id = 9, sale_quantity = 2,
                sale_timestamp = ''2024-05-01T10:07:00'', sale_total_price = 8,
                sale_cancelled = 0\<rparr>],
      sales_seq = 3\<rparr>"

text \<open>
  For the examples, \<^verbatim>\<open>int()\<close> is read on texts made of an optional sign and decimal digits,
  where it gives the number written; a price is written as such a text, too (\<^verbatim>\<open>float("2")\<close>
  is 2).  The clock of the examples stands still.
\<close>

fun digits_value :: "string \<Rightarrow> int \<Rightarrow> int option" where
  "digits_value [] acc = Some acc"
| "digits_value (c # cs) acc =
     (let d = of_char c :: nat in
      if 48 \<le> d \<and> d \<le> 57 then digits_value cs (10 * acc + (int d - 48)) else None)"

definition int_of_text :: "string \<Rightarrow> int option" where
  "int_of_text s =
     (case s of
        [] \<Rightarrow> None
      | c # cs \<Rightarrow>
          if cs = [] then digits_value s 0
          else if c = CHR ''-'' then map_option uminus (digits_value cs 0)
          else if c = CHR ''+'' then digits_value cs 0
          else digits_value s 0)"

definition still_clock :: "nat \<Rightarrow> timestamp" where
  "still_clock k = ''2024-05-01T11:00:00''"

text \<open>
  For the catalogue the examples have prices that are whole numbers or not a number, as
  \<^verbatim>\<open>float("nan")\<close> is; \<^verbatim>\<open>float()\<close> is read on the text \<^verbatim>\<open>nan\<close> and on the texts of \<open>int_of_text\<close>.
\<close>

datatype example_float = Number int | Not_a_number

definition example_isnan :: "example_float \<Rightarrow> bool" where
  "example_isnan p = (p = Not_a_number)"

definition float_of_text :: "string \<Rightarrow> example_float option" where
  "float_of_text s = (if s = ''nan'' then Some Not_a_number else map_option Number (int_of_text s))"

definition mug :: "example_float inventory_row" where
  "mug = \<lparr>inv_id = 1, inv_name = ''Mug'', inv_price = Number 4, inv_quantity = 12,
          inv_image_path = None, inv_favorite = 0\<rparr>"

definition plate :: "example_float inventory_row" where
  "plate = \<lparr>inv_id = 2, inv_name = ''Plate'', inv_price = Number 6, inv_quantity = 5,
            inv_image_path = Some ''uploads/77aa.png'', inv_favorite = 1\<rparr>"

definition catalogue :: "example_float conn" where
  "catalogue = \<lparr>inventory = [mug, plate], inventory_seq = 2, sales = [], sales_seq = 0\<rparr>"

section \<open>Failing sales change nothing\<close>

text \<open>
  Claim C3.  A sale of \<open>q > 0\<close> units of an existing item whose quantity is below \<open>q\<close> is
  refused with the insufficient-stock message, which carries the quantity available, and
  the database is returned as it was; the refusals for a missing item and for \<open>q \<le> 0\<close>
  leave the database as it was, too.
\<close>

theorem record_sale_db_failures:
  "(select_item db i = Some row \<and> 0 < q \<and> inv_quantity row < q \<longrightarrow>
      record_sale_db mul now db i q = (Insufficient_stock (inv_quantity row), db)) \<and>
   (select_item db i = None \<longrightarrow> record_sale_db mul now db i q = (Item_does_not_exist i, db)) \<and>
   (select_item db i = Some row \<and> q \<le> 0 \<longrightarrow>
      record_sale_db mul now db i q = (Quantity_must_be_positive, db))"
  by (simp add: record_sale_db_def)

theorem record_sale_db_failures_witness:
  "select_item shop 1 = Some tea \<and> (0::int) < 20 \<and> inv_quantity tea < 20 \<and>
   record_sale_db (*) ''2024-05-01T10:00:00'' shop 1 20 = (Insufficient_stock 10, shop) \<and>
   select_item shop 7 = None \<and>
   record_sale_db (*) ''2024-05-01T10:00:00'' shop 7 3 = (Item_does_not_exist 7, shop) \<and>
   (0::int) \<le> 0 \<and>
   record_sale_db (*) ''2024-05-01T10:00:00'' shop 1 0 = (Quantity_must_be_positive, shop)"
proof -
  have sel: "select_item shop 1 = Some tea"
    by (simp add: select_item_def shop_def tea_def)
  have none: "select_item shop 7 = None"
    by (simp add: select_item_def shop_def tea_def)
  have qty: "inv_quantity tea = 10"
    by (simp add: tea_def)
  from record_sale_db_failures [of shop 1 tea 20 "(*)" "''2024-05-01T10:00:00''"]
       record_sale_db_failures [of shop 7 tea 3 "(*)" "''2024-05-01T10:00:00''"]
       record_sale_db_failures [of shop 1 tea 0 "(*)" "''2024-05-01T10:00:00''"]
  show ?thesis
    using sel none qty by simp
qed

section \<open>Auxiliary facts about the tables\<close>

lemma find_update_where:
  assumes "\<And>r. key (f r) = key r"
  shows "find (\<lambda>r. key r = i) (update_where (\<lambda>r. key r = j) f rows) =
         map_option (\<lambda>r. if key r = j then f r else r) (find (\<lambda>r. key r = i) rows)"
  using assms by (induction rows) (simp_all add: update_where_def)


lemma select_item_restore:
  "select_item (restore_quantity q j db) i =
   map_option (\<lambda>r. if inv_id r = j then r\<lparr>inv_quantity := inv_quantity r + q\<rparr> else r)
     (select_item db i)"
  by (simp add: select_item_def restore_quantity_def find_update_where)

lemma select_sale_set_cancelled:
  "select_sale (set_cancelled c j db) i =
   map_option (\<lambda>s. if sale_id s = j then s\<lparr>sale_cancelled := c\<rparr> else s) (select_sale db i)"
  by (simp add: select_sale_def set_cancelled_def find_update_where)

lemma select_item_Some: "select_item db i = Some r \<Longrightarrow> inv_id r = i \<and> r \<in> set (inventory db)"
  by (auto simp: select_item_def find_Some_iff)

lemma select_sale_Some: "select_sale db i = Some s \<Longrightarrow> sale_id s = i \<and> s \<in> set (sales db)"
  by (auto simp: select_sale_def find_Some_iff)

lemma fold_max_ge: "(seq::int) \<le> fold max ids seq"
proof (induction ids arbitrary: seq)
  case Nil
  show ?case by simp
next
  case (Cons a ids)
  have "seq \<le> max a seq" by simp
  also have "\<dots> \<le> fold max ids (max a seq)" by (rule Cons.IH)
  finally show ?case by simp
qed



lemma next_rowid_gt: "seq < next_rowid seq ids"
  using fold_max_ge [of seq ids] by (simp add: next_rowid_def)

section \<open>A successful sale\<close>



lemma update_where_none:
  "\<forall>r \<in> set rows. \<not> cond r \<Longrightarrow> update_where cond f rows = rows"
  by (induction rows) (simp_all add: update_where_def)

lemma update_where_twice:
  assumes "\<And>r. cond r \<Longrightarrow> cond (g r)"
  shows "update_where cond f (update_where cond g rows) = update_where cond (\<lambda>r. f (g r)) rows"
  using assms by (induction rows) (simp_all add: update_where_def)

lemma update_where_same:
  assumes "\<And>r. cond r \<Longrightarrow> f r = r"
  shows "update_where cond f rows = rows"
  using assms by (induction rows) (simp_all add: update_where_def)

lemma find_None_update_where:
  "find cond rows = None \<Longrightarrow> update_where cond f rows = rows"
  by (rule update_where_none) (simp add: find_None_iff)

lemma restore_quantity_missing:
  "select_item db i = None \<Longrightarrow> restore_quantity q i db = db"
  by (simp add: select_item_def restore_quantity_def find_None_update_where)

lemma find_delete_where: "find cond (delete_where cond rows) = None"
  by (simp add: find_None_iff delete_where_def)

lemma scenario_states:
  "record_sale_db (*) ''2024-05-01T10:00:00'' shop 1 3 =
     (Sold 3 ''Tea'' 6 ''2024-05-01T10:00:00'', shop_sold)"
  "cancel_sale_db shop_sold 1 = (Sale_cancelled_restored, shop_cancelled)"
  "uncancel_sale_db shop_cancelled 1 = (Sale_uncancelled, shop_sold)"
  "delete_item shop_sold 1 = (Item_deleted ''Tea'', shop_orphan)"
  by (simp_all add: record_sale_db_def cancel_sale_db_def uncancel_sale_db_def delete_item_def
      select_item_def select_sale_def shop_def shop_sold_def shop_cancelled_def shop_orphan_def
      tea_def tea_sale_def insert_sale_def deduct_quantity_def restore_quantity_def
      set_cancelled_def update_where_def delete_where_def next_rowid_def Let_def)

section \<open>Deleting a sale\<close>

text \<open>
  Claim C5.  Deleting an existing sale removes its row for good: no sale of that id is
  left.  When the sale was in force the quantity of the item it names goes up by the
  sale's quantity, once, and no other inventory row changes; when the sale was cancelled
  the inventory is not touched.  The sum is taken to have 64 bits, so that it is the
  integer SQLite stores.
\<close>

theorem delete_sale_db_effect:
  assumes "select_sale db sid = Some s"
    and "sale_cancelled s = 0 \<longrightarrow>
         (\<forall>r \<in> set (inventory db).
            inv_id r = sale_item_id s \<longrightarrow> sqlite_integer (inv_quantity r + sale_quantity s))"
  shows "delete_sale_db db sid =
           (if sale_cancelled s = 0 then Sale_deleted_adjusted else Sale_deleted,
            db\<lparr>inventory :=
                 (if sale_cancelled s = 0
                  then map (\<lambda>r. if inv_id r = sale_item_id s
                                 then r\<lparr>inv_quantity := inv_quantity r + sale_quantity s\<rparr>
                                 else r) (inventory db)
                  else inventory db),
               sales := filter (\<lambda>x. sale_id x \<noteq> sid) (sales db)\<rparr>) \<and>
         select_sale (snd (delete_sale_db db sid)) sid = None \<and>
         (sale_cancelled s = 0 \<longrightarrow>
            select_item (snd (delete_sale_db db sid)) (sale_item_id s) =
            map_option (\<lambda>r. r\<lparr>inv_quantity := inv_quantity r + sale_quantity s\<rparr>)
              (select_item db (sale_item_id s)))"
proof -
  have run: "delete_sale_db db sid =
      (if sale_cancelled s = 0 then Sale_deleted_adjusted else Sale_deleted,
       (if sale_cancelled s = 0 then restore_quantity (sale_quantity s) (sale_item_id s) db else db)
         \<lparr>sales := delete_where (\<lambda>x. sale_id x = sid) (sales db)\<rparr>)"
    using assms(1) by (simp add: delete_sale_db_def Let_def restore_quantity_def)
  have gone: "select_sale (snd (delete_sale_db db sid)) sid = None"
    by (simp add: run select_sale_def find_delete_where)
  have item: "select_item (snd (delete_sale_db db sid)) (sale_item_id s) =
      map_option (\<lambda>r. r\<lparr>inv_quantity := inv_quantity r + sale_quantity s\<rparr>)
        (select_item db (sale_item_id s))" if "sale_cancelled s = 0"
  proof -
    have "select_item (snd (delete_sale_db db sid)) (sale_item_id s) =
          select_item (restore_quantity (sale_quantity s) (sale_item_id s) db) (sale_item_id s)"
      using that by (simp add: run select_item_def)
    also have "\<dots> = map_option (\<lambda>r. r\<lparr>inv_quantity := inv_quantity r + sale_quantity s\<rparr>)
        (select_item db (sale_item_id s))"
      by (cases "select_item db (sale_item_id s)")
         (auto simp: select_item_restore dest: select_item_Some)
    finally show ?thesis .
  qed
  have state: "delete_sale_db db sid =
           (if sale_cancelled s = 0 then Sale_deleted_adjusted else Sale_deleted,
            db\<lparr>inventory :=
                 (if sale_cancelled s = 0
                  then map (\<lambda>r. if inv_id r = sale_item_id s
                                 then r\<lparr>inv_quantity := inv_quantity r + sale_quantity s\<rparr>
                                 else r) (inventory db)
                  else inventory db),
               sales := filter (\<lambda>x. sale_id x \<noteq> sid) (sales db)\<rparr>)"
    by (simp add: run restore_quantity_def update_where_def delete_where_def)
  show ?thesis
    using state gone item by blast
qed

theorem delete_sale_db_effect_witness:
  "select_sale shop_sold 1 = Some tea_sale \<and>
   inventory shop_sold = [tea\<lparr>inv_quantity := 7\<rparr>] \<and> sqlite_integer (7 + sale_quantity tea_sale) \<and>
   delete_sale_db shop_sold 1 = (Sale_deleted_adjusted, shop\<lparr>sales_seq := 1\<rparr>) \<and>
   select_sale shop_cancelled 1 = Some (tea_sale\<lparr>sale_cancelled := 1\<rparr>) \<and>
   sale_cancelled (tea_sale\<lparr>sale_cancelled := 1\<rparr>) = 1 \<and>
   delete_sale_db shop_cancelled 1 = (Sale_deleted, shop\<lparr>sales_seq := 1\<rparr>)"
proof -
  have a: "select_sale shop_sold 1 = Some tea_sale"
    by (simp add: select_sale_def shop_sold_def tea_sale_def)
  have i: "inventory shop_sold = [tea\<lparr>inv_quantity := 7\<rparr>]"
    by (simp add: shop_sold_def)
  have r: "sqlite_integer (7 + sale_quantity tea_sale)"
    by (simp add: sqlite_integer_def tea_sale_def)
  have ra: "sale_cancelled tea_sale = 0 \<longrightarrow>
      (\<forall>r \<in> set (inventory shop_sold).
         inv_id r = sale_item_id tea_sale \<longrightarrow> sqlite_integer (inv_quantity r + sale_quantity tea_sale))"
    using r by (simp add: i)
  have b: "select_sale shop_cancelled 1 = Some (tea_sale\<lparr>sale_cancelled := 1\<rparr>)"
    by (simp add: select_sale_def shop_cancelled_def tea_sale_def)
  have rb: "sale_cancelled (tea_sale\<lparr>sale_cancelled := 1\<rparr>) = 0 \<longrightarrow>
      (\<forall>r \<in> set (inventory shop_cancelled).
         inv_id r = sale_item_id (tea_sale\<lparr>sale_cancelled := 1\<rparr>) \<longrightarrow>
         sqlite_integer (inv_quantity r + sale_quantity (tea_sale\<lparr>sale_cancelled := 1\<rparr>)))"
    by simp
  from delete_sale_db_effect [OF a ra] delete_sale_db_effect [OF b rb]
  show ?thesis
    using a b i r by (simp add: shop_sold_def shop_cancelled_def shop_def tea_def tea_sale_def)
qed

section \<open>Sales whose item is gone\<close>

text \<open>
  Claim C9.  For a sale whose item no longer exists, cancelling it (when it is in force)
  succeeds and marks it cancelled, and deleting it succeeds and removes its row; in both
  cases the inventory is exactly what it was and the function returns its usual message.
\<close>

theorem dangling_sale_cancel_delete:
  assumes "select_sale db sid = Some s" and "select_item db (sale_item_id s) = None"
  shows "(sale_cancelled s = 0 \<longrightarrow>
            cancel_sale_db db sid =
              (Sale_cancelled_restored,
               db\<lparr>sales := map (\<lambda>x. if sale_id x = sid then x\<lparr>sale_cancelled := 1\<rparr> else x)
                               (sales db)\<rparr>) \<and>
            select_sale (snd (cancel_sale_db db sid)) sid = Some (s\<lparr>sale_cancelled := 1\<rparr>)) \<and>
         delete_sale_db db sid =
           (if sale_cancelled s = 0 then Sale_deleted_adjusted else Sale_deleted,
            db\<lparr>sales := filter (\<lambda>x. sale_id x \<noteq> sid) (sales db)\<rparr>) \<and>
         select_sale (snd (delete_sale_db db sid)) sid = None \<and>
         inventory (snd (cancel_sale_db db sid)) = inventory db \<and>
         inventory (snd (delete_sale_db db sid)) = inventory db"
proof -
  have sid: "sale_id s = sid"
    using assms(1) by (simp add: select_sale_Some)
  have missing: "select_item (set_cancelled 1 sid db) (sale_item_id s) = None"
    using assms(2) by (simp add: select_item_def set_cancelled_def)
  have cancel: "cancel_sale_db db sid = (Sale_cancelled_restored, set_cancelled 1 sid db)"
    if "sale_cancelled s = 0"
    using assms(1) that missing by (simp add: cancel_sale_db_def Let_def restore_quantity_missing)
  have cancel_inv: "inventory (snd (cancel_sale_db db sid)) = inventory db"
  proof (cases "sale_cancelled s = 0")
    case True
    then show ?thesis by (simp add: cancel set_cancelled_def)
  next
    case False
    then show ?thesis using assms(1) by (simp add: cancel_sale_db_def)
  qed
  have delete: "delete_sale_db db sid =
      (if sale_cancelled s = 0 then Sale_deleted_adjusted else Sale_deleted,
       db\<lparr>sales := delete_where (\<lambda>x. sale_id x = sid) (sales db)\<rparr>)"
    using assms by (simp add: delete_sale_db_def Let_def restore_quantity_missing)
  have "select_sale (set_cancelled 1 sid db) sid = Some (s\<lparr>sale_cancelled := 1\<rparr>)"
    using assms(1) sid by (simp add: select_sale_set_cancelled)
  moreover have "set_cancelled 1 sid db =
      db\<lparr>sales := map (\<lambda>x. if sale_id x = sid then x\<lparr>sale_cancelled := 1\<rparr> else x) (sales db)\<rparr>"
    by (simp add: set_cancelled_def update_where_def)
  moreover have "select_sale (snd (delete_sale_db db sid)) sid = None"
    by (simp add: delete select_sale_def find_delete_where)
  moreover have "inventory (snd (delete_sale_db db sid)) = inventory db"
    by (simp add: delete)
  moreover have "db\<lparr>sales := delete_where (\<lambda>x. sale_id x = sid) (sales db)\<rparr> =
      db\<lparr>sales := filter (\<lambda>x. sale_id x \<noteq> sid) (sales db)\<rparr>"
    by (simp add: delete_where_def)
  ultimately show ?thesis
    using cancel cancel_inv delete by simp
qed

theorem dangling_sale_cancel_delete_witness:
  "select_sale shop_orphan 1 = Some tea_sale \<and>
   select_item shop_orphan (sale_item_id tea_sale) = None \<and>
   sale_cancelled tea_sale = 0 \<and>
   cancel_sale_db shop_orphan 1 =
     (Sale_cancelled_restored, shop_orphan\<lparr>sales := [tea_sale\<lparr>sale_cancelled := 1\<rparr>]\<rparr>) \<and>
   delete_sale_db shop_orphan 1 = (Sale_deleted_adjusted, shop_orphan\<lparr>sales := []\<rparr>) \<and>
   inventory (snd (cancel_sale_db shop_orphan 1)) = [] \<and>
   inventory (snd (delete_sale_db shop_orphan 1)) = []"
proof -
  have a: "select_sale shop_orphan 1 = Some tea_sale"
    by (simp add: select_sale_def shop_orphan_def tea_sale_def)
  have b: "select_item shop_orphan (sale_item_id tea_sale) = None"
    by (simp add: select_item_def shop_orphan_def)
  have c: "sale_cancelled tea_sale = 0"
    by (simp add: tea_sale_def)
  from dangling_sale_cancel_delete [OF a b]
  show ?thesis
    using a b c by (simp add: shop_orphan_def tea_sale_def)
qed

section \<open>Cancelling and un-cancelling\<close>

text \<open>
  Claim C6.  Take a sale in force whose item exists, cancel it, and un-cancel it at once.
  When the un-cancel succeeds, the item row is what it was before the cancel, as is the
  whole inventory, and the sale is in force again.  In between the item holds the sale's
  quantity more, and the un-cancel succeeds only when the item's quantity before the
  cancel was not negative.  The sum the cancel stores is taken to have 64 bits, so that it
  is the integer SQLite stores.
\<close>

theorem cancel_uncancel_round_trip:
  assumes "select_sale db sid = Some s" and "sale_cancelled s = 0"
    and "select_item db (sale_item_id s) = Some a"
    and "cancel_sale_db db sid = (m, db1)"
    and "uncancel_sale_db db1 sid = (Sale_uncancelled, db2)"
    and "\<forall>r \<in> set (inventory db).
           inv_id r = sale_item_id s \<longrightarrow> sqlite_integer (inv_quantity r + sale_quantity s)"
  shows "m = Sale_cancelled_restored \<and>
         select_item db1 (sale_item_id s) =
           Some (a\<lparr>inv_quantity := inv_quantity a + sale_quantity s\<rparr>) \<and>
         select_sale db1 sid = Some (s\<lparr>sale_cancelled := 1\<rparr>) \<and>
         select_item db2 (sale_item_id s) = Some a \<and>
         inventory db2 = inventory db \<and>
         select_sale db2 sid = Some s \<and>
         0 \<le> inv_quantity a"
proof -
  let ?q = "sale_quantity s" and ?i = "sale_item_id s"
  have sid: "sale_id s = sid"
    using assms(1) by (simp add: select_sale_Some)
  have aid: "inv_id a = ?i"
    using assms(3) by (simp add: select_item_Some)
  have c: "m = Sale_cancelled_restored" "db1 = restore_quantity ?q ?i (set_cancelled 1 sid db)"
    using assms(1,2,4) by (simp_all add: cancel_sale_db_def Let_def)
  have s1: "select_sale db1 sid = Some (s\<lparr>sale_cancelled := 1\<rparr>)"
    using assms(1) sid by (simp add: c(2) select_sale_def restore_quantity_def set_cancelled_def
        find_update_where)
  have "select_item (set_cancelled 1 sid db) ?i = Some a"
    using assms(3) by (simp add: select_item_def set_cancelled_def)
  then have i1: "select_item db1 ?i = Some (a\<lparr>inv_quantity := inv_quantity a + ?q\<rparr>)"
    using aid by (simp add: c(2) select_item_restore)
  have ok: "\<not> inv_quantity a + ?q < ?q"
    using assms(5) s1 i1 by (auto simp: uncancel_sale_db_def split: if_splits)
  have u: "db2 = set_cancelled 0 sid (deduct_quantity ?q ?i db1)"
    using assms(5) s1 i1 ok by (simp add: uncancel_sale_db_def Let_def)
  have inv: "inventory db2 = inventory db"
    by (simp add: u c(2) set_cancelled_def deduct_quantity_def restore_quantity_def
        update_where_twice update_where_same)
  have "sales db2 = update_where (\<lambda>x. sale_id x = sid) (\<lambda>x. x\<lparr>sale_cancelled := 0\<rparr>) (sales db)"
    by (simp add: u c(2) set_cancelled_def deduct_quantity_def restore_quantity_def
        update_where_twice)
  then have s2: "select_sale db2 sid = Some s"
    using assms(1,2) sid by (simp add: select_sale_def find_update_where)
  have i2: "select_item db2 ?i = Some a"
    using inv assms(3) by (simp add: select_item_def)
  show ?thesis
    using c(1) i1 s1 i2 inv s2 ok by simp
qed

theorem cancel_uncancel_round_trip_witness:
  "select_sale shop_sold 1 = Some tea_sale \<and> sale_cancelled tea_sale = 0 \<and>
   select_item shop_sold (sale_item_id tea_sale) = Some (tea\<lparr>inv_quantity := 7\<rparr>) \<and>
   cancel_sale_db shop_sold 1 = (Sale_cancelled_restored, shop_cancelled) \<and>
   uncancel_sale_db shop_cancelled 1 = (Sale_uncancelled, shop_sold) \<and>
   inventory shop_sold = [tea\<lparr>inv_quantity := 7\<rparr>] \<and> sqlite_integer (7 + sale_quantity tea_sale) \<and>
   select_item shop_cancelled (sale_item_id tea_sale) =
     Some (tea\<lparr>inv_quantity := 7, inv_quantity := 7 + sale_quantity tea_sale\<rparr>) \<and>
   select_item shop_sold (sale_item_id tea_sale) = Some (tea\<lparr>inv_quantity := 7\<rparr>) \<and>
   select_sale shop_sold 1 = Some tea_sale"
proof -
  have a: "select_sale shop_sold 1 = Some tea_sale"
    by (simp add: select_sale_def shop_sold_def tea_sale_def)
  have b: "sale_cancelled tea_sale = 0"
    by (simp add: tea_sale_def)
  have c: "select_item shop_sold (sale_item_id tea_sale) = Some (tea\<lparr>inv_quantity := 7\<rparr>)"
    by (simp add: select_item_def shop_sold_def tea_sale_def tea_def)
  have i: "inventory shop_sold = [tea\<lparr>inv_quantity := 7\<rparr>]"
    by (simp add: shop_sold_def)
  have r: "sqlite_integer (7 + sale_quantity tea_sale)"
    by (simp add: sqlite_integer_def tea_sale_def)
  have range: "\<forall>r \<in> set (inventory shop_sold).
      inv_id r = sale_item_id tea_sale \<longrightarrow> sqlite_integer (inv_quantity r + sale_quantity tea_sale)"
    using r by (simp add: i)
  from cancel_uncancel_round_trip [OF a b c scenario_states(2) scenario_states(3) range]
  show ?thesis
    using a b c i r scenario_states(2) scenario_states(3) by simp
qed

section \<open>The quantity invariant\<close>




















section \<open>The sale listing\<close>

lemma filter_unique_key:
  assumes "distinct (map key rows)"
  shows "filter (\<lambda>r. k = key r) rows =
         (case find (\<lambda>r. key r = k) rows of None \<Rightarrow> [] | Some r \<Rightarrow> [r])"
  using assms
proof (induction rows)
  case Nil
  then show ?case by simp
next
  case (Cons a rows)
  show ?case
  proof (cases "key a = k")
    case True
    with Cons.prems have "\<forall>r \<in> set rows. k \<noteq> key r"
      by (auto simp: image_iff)
    then have "filter (\<lambda>r. k = key r) rows = []"
      by (simp add: filter_empty_conv)
    with True show ?thesis by simp
  next
    case False
    with Cons show ?thesis by auto
  qed
qed

lemma join_sales_inventory_unique:
  assumes "distinct (map inv_id (inventory db))"
  shows "join_sales_inventory db =
         concat (map (\<lambda>s. case select_item db (sale_item_id s) of
                             None \<Rightarrow> [] | Some r \<Rightarrow> [listing s r]) (sales db))"
proof -
  have "map (listing s) (filter (\<lambda>r. sale_item_id s = inv_id r) (inventory db)) =
        (case select_item db (sale_item_id s) of None \<Rightarrow> [] | Some r \<Rightarrow> [listing s r])" for s
    by (simp add: filter_unique_key [OF assms] select_item_def split: option.splits)
  then show ?thesis
    by (simp add: join_sales_inventory_def)
qed

lemma order_by_desc_sorted: "sorted_wrt (\<lambda>a b. b \<le> a) (map key (order_by_desc key rows))"
proof -
  have "sorted (map key (sort_key key (rev rows)))"
    by (rule sorted_sort_key)
  then have "sorted_wrt (\<lambda>a b. b \<le> a) (rev (map key (sort_key key (rev rows))))"
    by (simp add: sorted_wrt_rev)
  then show ?thesis
    by (simp add: order_by_desc_def rev_map)
qed

lemma order_by_desc_mset: "mset (order_by_desc key rows) = mset rows"
  by (simp add: order_by_desc_def)

text \<open>
  With unique item ids the listing holds one row for every sale whose item is in the
  inventory, cancelled sales included, with the name the item has now; the rows are in
  descending order of their timestamps.
\<close>

lemma list_sales_rows:
  assumes "distinct (map inv_id (inventory db))"
  shows "mset (list_sales db) =
           mset (concat (map (\<lambda>s. case select_item db (sale_item_id s) of
                                     None \<Rightarrow> [] | Some r \<Rightarrow> [listing s r]) (sales db))) \<and>
         sorted_wrt (\<lambda>a b. b \<le> a) (map ls_timestamp (list_sales db))"
  using assms
  by (simp add: list_sales_def order_by_desc_mset order_by_desc_sorted
      join_sales_inventory_unique)

lemma list_sales_history:
  "list_sales shop_history =
     [\<lparr>ls_id = 2, ls_item_name = ''Coffee'', ls_quantity = 1, ls_total_price = 5,
       ls_timestamp = ''2024-05-01T10:05:00'', ls_cancelled = 1\<rparr>,
      \<lparr>ls_id = 1, ls_item_name = ''Tea'', ls_quantity = 3, ls_total_price = 6,
       ls_timestamp = ''2024-05-01T10:00:00'', ls_cancelled = 0\<rparr>]"
  by (simp add: list_sales_def join_sales_inventory_def order_by_desc_def listing_def
      shop_history_def tea_def coffee_def tea_sale_def)

text \<open>
  Claim C4.  The listing is to return every sale, with a marker in place of the name when
  the item of a sale has been deleted; \<open>delete_item\<close> promises as much (``Associated sales
  remain in the history'').  The query is an inner join, and it drops such a sale.  In
  \<open>shop_orphan\<close>, the state after three units of tea were sold and the item was deleted,
  the sales table still holds the sale and the listing is empty.
\<close>

theorem list_sales_drops_orphan_sale:
  "delete_item shop_sold 1 = (Item_deleted ''Tea'', shop_orphan) \<and>
   sales shop_orphan = [tea_sale] \<and>
   select_item shop_orphan (sale_item_id tea_sale) = None \<and>
   list_sales shop_orphan = []"
  by (simp add: scenario_states list_sales_def join_sales_inventory_def order_by_desc_def
      shop_orphan_def select_item_def)

section \<open>Checkout\<close>

lemma checkout_loop_append:
  "checkout_loop to_int mul clock n db (xs @ ys) acc =
     (case checkout_loop to_int mul clock n db xs acc of
        (Inl e, db') \<Rightarrow> (Inl e, db')
      | (Inr ms, db') \<Rightarrow> checkout_loop to_int mul clock (n + length xs) db' ys ms)"
proof (induction xs arbitrary: n db acc)
  case Nil
  show ?case by simp
next
  case (Cons l xs)
  obtain key q where l: "l = (key, q)"
    by (cases l)
  show ?case
  proof (cases "to_int key")
    case None
    then show ?thesis by (simp add: l)
  next
    case (Some i)
    obtain m db' where r: "record_sale_db mul (clock n) db i q = (m, db')"
      by (cases "record_sale_db mul (clock n) db i q")
    show ?thesis
      by (simp add: l Some r Cons.IH split: prod.splits sum.splits)
  qed
qed

lemma record_sale_db_not_sold:
  assumes "record_sale_db mul now db i q = (m, db')"
    and "\<forall>n nm t ts. m \<noteq> Sold n nm t ts"
  shows "db' = db"
  using assms by (auto simp: record_sale_db_def Let_def split: option.splits if_splits)

lemma checkout_loop_lines:
  assumes "\<forall>l \<in> set cart. to_int (fst l) \<noteq> None"
  shows "\<exists>messages.
           fst (checkout_loop to_int mul clock 0 db cart []) = Inr messages \<and>
           length messages = length cart \<and>
           (\<forall>k < length cart. \<forall>i. to_int (fst (cart ! k)) = Some i \<longrightarrow>
              record_sale_db mul (clock k)
                (snd (checkout_loop to_int mul clock 0 db (take k cart) [])) i (snd (cart ! k)) =
              (messages ! k, snd (checkout_loop to_int mul clock 0 db (take (Suc k) cart) [])))"
  using assms
proof (induction cart rule: rev_induct)
  case Nil
  show ?case by simp
next
  case (snoc l xs)
  let ?D = "\<lambda>c. snd (checkout_loop to_int mul clock 0 db c [])"
  obtain key q where l: "l = (key, q)"
    by (cases l)
  from snoc.prems obtain i where i: "to_int key = Some i"
    by (auto simp: l)
  from snoc obtain ms where ms:
    "fst (checkout_loop to_int mul clock 0 db xs []) = Inr ms"
    "length ms = length xs"
    "\<forall>k < length xs. \<forall>j. to_int (fst (xs ! k)) = Some j \<longrightarrow>
        record_sale_db mul (clock k) (?D (take k xs)) j (snd (xs ! k)) =
        (ms ! k, ?D (take (Suc k) xs))"
    by auto
  obtain dbx where dbx: "checkout_loop to_int mul clock 0 db xs [] = (Inr ms, dbx)"
    using ms(1) by (cases "checkout_loop to_int mul clock 0 db xs []") simp
  then have Dxs: "?D xs = dbx"
    by simp
  obtain m db' where r: "record_sale_db mul (clock (length xs)) dbx i q = (m, db')"
    by (cases "record_sale_db mul (clock (length xs)) dbx i q")
  have whole: "checkout_loop to_int mul clock 0 db (xs @ [l]) [] = (Inr (ms @ [m]), db')"
    by (simp add: checkout_loop_append dbx l i r)
  have line: "record_sale_db mul (clock k) (?D (take k (xs @ [l]))) j (snd ((xs @ [l]) ! k)) =
      ((ms @ [m]) ! k, ?D (take (Suc k) (xs @ [l])))"
    if k: "k < length (xs @ [l])" and j: "to_int (fst ((xs @ [l]) ! k)) = Some j" for k j
  proof (cases "k < length xs")
    case True
    then have "to_int (fst (xs ! k)) = Some j"
      using j by (simp add: nth_append)
    with ms(3) True have "record_sale_db mul (clock k) (?D (take k xs)) j (snd (xs ! k)) =
        (ms ! k, ?D (take (Suc k) xs))"
      by blast
    with True ms(2) show ?thesis
      by (simp add: nth_append)
  next
    case False
    with k have k': "k = length xs"
      by simp
    then have "j = i"
      using j i by (simp add: l)
    moreover have "(ms @ [m]) ! length xs = m"
      using ms(2) by (metis nth_append_length)
    ultimately show ?thesis
      using k' r whole Dxs by (simp add: l)
  qed
  have "fst (checkout_loop to_int mul clock 0 db (xs @ [l]) []) = Inr (ms @ [m])"
    by (simp add: whole)
  moreover have "length (ms @ [m]) = length (xs @ [l])"
    by (simp add: ms(2))
  ultimately show ?case
    using line by blast
qed

text \<open>
  Claim C8 says that after a line whose sale fails the later lines are not attempted.  A
  refused sale returns its message like any other and the loop goes on.  In
  \<open>shop_history\<close>, which has 7 units of tea and 4 of coffee, the cart asks for 20 of tea
  and 1 of coffee: the tea is refused and the coffee, the later line, is sold.
\<close>

theorem checkout_continues_counterexample:
  "checkout int_of_text (*) still_clock [(''1'', 20), (''2'', 1)] shop_history =
     (Checkout_complete
        [Insufficient_stock 7, Sold 1 ''Coffee'' 5 ''2024-05-01T11:00:00''],
      [],
      shop_history
        \<lparr>inventory := [tea\<lparr>inv_quantity := 7\<rparr>, coffee\<lparr>inv_quantity := 3\<rparr>],
         sales := sales shop_history @
           [\<lparr>sale_id = 4, sale_item_id = 2, sale_quantity = 1,
             sale_timestamp = ''2024-05-01T11:00:00'', sale_total_price = 5,
             sale_cancelled = 0\<rparr>],
         sales_seq := 4\<rparr>)"
  by (simp add: checkout_def int_of_text_def still_clock_def record_sale_db_def
      select_item_def shop_history_def tea_def coffee_def tea_sale_def insert_sale_def
      deduct_quantity_def update_where_def next_rowid_def Let_def)

text \<open>
  Claim C8, amended.  For a cart that is not empty and whose keys are item ids, checkout
  runs to its end, empties the cart and returns one message per line.  Line \<open>k\<close> is sold
  by one call of \<open>record_sale_db\<close>, on the database that the lines before it have left,
  whatever those lines returned; the call gives message \<open>k\<close> and the database for the
  lines after it.  A line that is not sold leaves the database as the lines before it
  have left it: what they sold stays sold.
\<close>

theorem checkout_sells_every_line:
  assumes "cart \<noteq> []" and "\<forall>l \<in> set cart. to_int (fst l) \<noteq> None"
  shows "\<exists>messages.
           checkout to_int mul clock cart db =
             (Checkout_complete messages, [],
              snd (checkout_loop to_int mul clock 0 db cart [])) \<and>
           length messages = length cart \<and>
           (\<forall>k < length cart. \<forall>i. to_int (fst (cart ! k)) = Some i \<longrightarrow>
              record_sale_db mul (clock k)
                (snd (checkout_loop to_int mul clock 0 db (take k cart) [])) i (snd (cart ! k)) =
              (messages ! k, snd (checkout_loop to_int mul clock 0 db (take (Suc k) cart) []))) \<and>
           (\<forall>k < length cart. (\<forall>n nm t ts. messages ! k \<noteq> Sold n nm t ts) \<longrightarrow>
              snd (checkout_loop to_int mul clock 0 db (take (Suc k) cart) []) =
              snd (checkout_loop to_int mul clock 0 db (take k cart) []))"
proof -
  let ?D = "\<lambda>c. snd (checkout_loop to_int mul clock 0 db c [])"
  from checkout_loop_lines [OF assms(2), of mul clock db]
  obtain messages where ms:
    "fst (checkout_loop to_int mul clock 0 db cart []) = Inr messages"
    "length messages = length cart"
    "\<forall>k < length cart. \<forall>i. to_int (fst (cart ! k)) = Some i \<longrightarrow>
        record_sale_db mul (clock k) (?D (take k cart)) i (snd (cart ! k)) =
        (messages ! k, ?D (take (Suc k) cart))"
    by blast
  obtain dbx where dbx: "checkout_loop to_int mul clock 0 db cart [] = (Inr messages, dbx)"
    using ms(1) by (cases "checkout_loop to_int mul clock 0 db cart []") simp
  have complete: "checkout to_int mul clock cart db = (Checkout_complete messages, [], ?D cart)"
    using assms(1) by (simp add: checkout_def dbx)
  have kept: "?D (take (Suc k) cart) = ?D (take k cart)"
    if k: "k < length cart" and no: "\<forall>n nm t ts. messages ! k \<noteq> Sold n nm t ts" for k
  proof -
    from assms(2) k obtain i where i: "to_int (fst (cart ! k)) = Some i"
      by (metis nth_mem option.exhaust)
    with ms(3) k have "record_sale_db mul (clock k) (?D (take k cart)) i (snd (cart ! k)) =
        (messages ! k, ?D (take (Suc k) cart))"
      by blast
    then show ?thesis
      using no by (rule record_sale_db_not_sold)
  qed
  show ?thesis
    using complete ms(2) ms(3) kept by (intro exI [of _ messages]) blast
qed

theorem checkout_sells_every_line_witness:
  "[(''1'', 20), (''2'', 1 :: int)] \<noteq> [] \<and>
   int_of_text ''1'' = Some 1 \<and> int_of_text ''2'' = Some 2 \<and>
   (\<exists>messages.
      checkout int_of_text (*) still_clock [(''1'', 20), (''2'', 1)] shop_history =
        (Checkout_complete messages, [],
         snd (checkout_loop int_of_text (*) still_clock 0 shop_history
                [(''1'', 20), (''2'', 1)] [])) \<and>
      length messages = 2) \<and>
   fst (checkout int_of_text (*) still_clock [(''1'', 20), (''2'', 1)] shop_history) =
     Checkout_complete [Insufficient_stock 7, Sold 1 ''Coffee'' 5 ''2024-05-01T11:00:00'']"
proof -
  have a: "[(''1'', 20), (''2'', 1 :: int)] \<noteq> []"
    by simp
  have p: "int_of_text ''1'' = Some 1" "int_of_text ''2'' = Some 2"
    by (simp_all add: int_of_text_def)
  then have b: "\<forall>l \<in> set [(''1'', 20), (''2'', 1 :: int)]. int_of_text (fst l) \<noteq> None"
    by simp
  from checkout_sells_every_line [OF a b, of "(*)" still_clock shop_history]
  obtain messages where
    "checkout int_of_text (*) still_clock [(''1'', 20), (''2'', 1)] shop_history =
        (Checkout_complete messages, [],
         snd (checkout_loop int_of_text (*) still_clock 0 shop_history
                [(''1'', 20), (''2'', 1)] []))"
    "length messages = 2"
    by auto
  moreover have
    "fst (checkout int_of_text (*) still_clock [(''1'', 20), (''2'', 1)] shop_history) =
     Checkout_complete [Insufficient_stock 7, Sold 1 ''Coffee'' 5 ''2024-05-01T11:00:00'']"
    by (simp add: checkout_def p still_clock_def record_sale_db_def
      select_item_def shop_history_def tea_def coffee_def tea_sale_def insert_sale_def
      deduct_quantity_def update_where_def next_rowid_def Let_def)
  ultimately show ?thesis
    using a p by blast
qed

section \<open>Adding an item\<close>

lemma dropWhile_id: "xs = [] \<or> \<not> P (hd xs) \<Longrightarrow> dropWhile P xs = xs"
  by (cases xs) auto

lemma strip_ends:
  "strip s = [] \<or> (\<not> isspace (hd (strip s)) \<and> \<not> isspace (last (strip s)))"
proof (cases "strip s = []")
  case True
  then show ?thesis by simp
next
  case False
  define a where "a = dropWhile isspace s"
  define b where "b = dropWhile isspace (rev a)"
  have t: "strip s = rev b"
    by (simp add: strip_def a_def b_def)
  with False have b: "b \<noteq> []"
    by simp
  then have "\<not> isspace (hd b)"
    unfolding b_def by (rule hd_dropWhile)
  then have last: "\<not> isspace (last (strip s))"
    using b by (simp add: t last_rev)
  have "rev a = takeWhile isspace (rev a) @ b"
    unfolding b_def by simp
  then have "rev (rev a) = rev (takeWhile isspace (rev a) @ b)"
    by (rule arg_cong)
  then have a: "a = rev b @ rev (takeWhile isspace (rev a))"
    by simp
  then have "a \<noteq> []"
    using b by auto
  then have "\<not> isspace (hd a)"
    unfolding a_def by (rule hd_dropWhile)
  moreover have "hd a = hd (rev b)"
    using b by (subst a) simp
  ultimately show ?thesis
    using last by (simp add: t)
qed

lemma strip_strip: "strip (strip s) = strip s"
proof (cases "strip s = []")
  case True
  have "strip [] = []"
    by (simp add: strip_def)
  with True show ?thesis by simp
next
  case False
  with strip_ends [of s] have e: "\<not> isspace (hd (strip s))" "\<not> isspace (last (strip s))"
    by simp_all
  have "dropWhile isspace (strip s) = strip s"
    using e(1) by (simp add: dropWhile_id)
  moreover have "dropWhile isspace (rev (strip s)) = rev (strip s)"
    using False e(2) by (simp add: dropWhile_id hd_rev)
  ultimately show ?thesis
    by (simp add: strip_def [of "strip s"])
qed

lemma upload_image_cases:
  "(image_file = None \<or> image_file = Some [] \<longrightarrow> upload_image uuid_hex image_file = Inr None) \<and>
   (\<forall>filename. image_file = Some filename \<and> filename \<noteq> [] \<longrightarrow>
      upload_image uuid_hex image_file =
        (if lower (rsplit_last filename) \<in> ALLOWED_EXTENSIONS
         then Inr (Some (''uploads/'' @ uuid_hex @ ''.'' @ lower (rsplit_last filename)))
         else Inl Unsupported_image_type))"
  by (auto simp: upload_image_def Let_def)

lemma upload_image_refusal: "upload_image uuid_hex image_file = Inl f \<Longrightarrow> f = Unsupported_image_type"
  by (auto simp: upload_image_def Let_def split: option.splits if_splits)

text \<open>
  Claim C7 says that a price or a quantity that is not a non-negative number is refused.
  The route refuses what \<^verbatim>\<open>float()\<close> and \<^verbatim>\<open>int()\<close> refuse, and the database what it cannot
  store; neither program compares a price or a quantity with zero.  The price \<^verbatim>\<open>-2\<close> and
  the quantity \<^verbatim>\<open>-3\<close> are inserted.
\<close>

theorem add_item_negative_counterexample:
  "add_item example_isnan float_of_text int_of_text ''0f3a''
     \<lparr>form_name = '' Cup '', form_price = ''-2'', form_quantity = ''-3'', form_image = None\<rparr>
     catalogue =
   (Inr (Item_added ''Cup''),
    catalogue\<lparr>inventory := [mug, plate,
                   \<lparr>inv_id = 3, inv_name = ''Cup'', inv_price = Number (- 2), inv_quantity = - 3,
                    inv_image_path = None, inv_favorite = 0\<rparr>],
              inventory_seq := 3\<rparr>)"
  by (simp add: add_item_def add_item_with_image_def upload_image_def strip_def isspace_def
      float_of_text_def int_of_text_def example_isnan_def sqlite_integer_def
      catalogue_def mug_def plate_def next_rowid_def Let_def)

text \<open>
  Claim C7, amended.  The route inserts no row and flashes an error when the name is empty
  after trimming, when \<^verbatim>\<open>float()\<close> refuses the trimmed price, when \<^verbatim>\<open>int()\<close> refuses the
  trimmed quantity, and when a file is uploaded whose extension is not among the allowed
  ones.  Past these checks the database refuses a quantity that has not 64 bits
  (\<^verbatim>\<open>OverflowError\<close>) and a price that is not a number (\<^verbatim>\<open>IntegrityError\<close>), and again no row is
  inserted.  In every other case the route appends one row, with a fresh id, the trimmed
  name, the price and the quantity as parsed, whatever their sign, the path of the stored
  image if one was uploaded, and the favorite flag 0.
\<close>

theorem add_item_validation:
  fixes to_float :: "string \<Rightarrow> 'p option"
  shows
    "(strip (form_name form) = [] \<longrightarrow>
        add_item isnan to_float to_int uuid_hex form db = (Inr Item_name_cannot_be_empty, db)) \<and>
     (strip (form_name form) \<noteq> [] \<and>
      (to_float (strip (form_price form)) = None \<or> to_int (strip (form_quantity form)) = None) \<longrightarrow>
        add_item isnan to_float to_int uuid_hex form db = (Inr Enter_valid_numeric_values, db)) \<and>
     (strip (form_name form) \<noteq> [] \<and> to_float (strip (form_price form)) = Some price \<and>
      to_int (strip (form_quantity form)) = Some quantity \<longrightarrow>
        (\<forall>filename. form_image form = Some filename \<and> filename \<noteq> [] \<and>
           lower (rsplit_last filename) \<notin> ALLOWED_EXTENSIONS \<longrightarrow>
           add_item isnan to_float to_int uuid_hex form db = (Inr Unsupported_image_type, db)) \<and>
        (\<forall>image_path.
           ((form_image form = None \<or> form_image form = Some []) \<and> image_path = None) \<or>
           (\<exists>filename. form_image form = Some filename \<and> filename \<noteq> [] \<and>
              lower (rsplit_last filename) \<in> ALLOWED_EXTENSIONS \<and>
              image_path = Some (''uploads/'' @ uuid_hex @ ''.'' @ lower (rsplit_last filename))) \<longrightarrow>
           (\<not> sqlite_integer quantity \<longrightarrow>
              add_item isnan to_float to_int uuid_hex form db = (Inl OverflowError, db)) \<and>
           (sqlite_integer quantity \<and> isnan price \<longrightarrow>
              add_item isnan to_float to_int uuid_hex form db = (Inl IntegrityError, db)) \<and>
           (sqlite_integer quantity \<and> \<not> isnan price \<longrightarrow>
              add_item isnan to_float to_int uuid_hex form db =
                (Inr (Item_added (strip (form_name form))),
                 db\<lparr>inventory := inventory db @
                      [\<lparr>inv_id = next_rowid (inventory_seq db) (map inv_id (inventory db)),
                        inv_name = strip (form_name form), inv_price = price,
                        inv_quantity = quantity, inv_image_path = image_path,
                        inv_favorite = 0\<rparr>],
                    inventory_seq := next_rowid (inventory_seq db) (map inv_id (inventory db))\<rparr>))))"
proof -
  let ?r = "add_item isnan to_float to_int uuid_hex form db"
  let ?n = "strip (form_name form)"
  have a: "?r = (Inr Item_name_cannot_be_empty, db)" if "?n = []"
    using that by (simp add: add_item_def Let_def)
  have b: "?r = (Inr Enter_valid_numeric_values, db)"
    if "?n \<noteq> []" "to_float (strip (form_price form)) = None \<or> to_int (strip (form_quantity form)) = None"
    using that by (auto simp: add_item_def Let_def split: option.splits)
  have parsed: "?r =
      (case upload_image uuid_hex (form_image form) of
         Inl refusal \<Rightarrow> (Inr refusal, db)
       | Inr image_path \<Rightarrow>
           (case add_item_with_image isnan db ?n price quantity image_path of
              Inl e \<Rightarrow> (Inl e, db)
            | Inr db' \<Rightarrow> (Inr (Item_added ?n), db')))"
    if "?n \<noteq> []" "to_float (strip (form_price form)) = Some price"
       "to_int (strip (form_quantity form)) = Some quantity"
    using that by (simp add: add_item_def Let_def)
  have c: "?r = (Inr Unsupported_image_type, db)"
    if "?n \<noteq> []" "to_float (strip (form_price form)) = Some price"
       "to_int (strip (form_quantity form)) = Some quantity"
       "form_image form = Some filename" "filename \<noteq> []"
       "lower (rsplit_last filename) \<notin> ALLOWED_EXTENSIONS" for filename
    using that by (simp add: parsed upload_image_def Let_def)
  have d: "(\<not> sqlite_integer quantity \<longrightarrow> ?r = (Inl OverflowError, db)) \<and>
      (sqlite_integer quantity \<and> isnan price \<longrightarrow> ?r = (Inl IntegrityError, db)) \<and>
      (sqlite_integer quantity \<and> \<not> isnan price \<longrightarrow>
         ?r = (Inr (Item_added ?n),
               db\<lparr>inventory := inventory db @
                    [\<lparr>inv_id = next_rowid (inventory_seq db) (map inv_id (inventory db)),
                      inv_name = ?n, inv_price = price, inv_quantity = quantity,
                      inv_image_path = image_path, inv_favorite = 0\<rparr>],
                  inventory_seq := next_rowid (inventory_seq db) (map inv_id (inventory db))\<rparr>))"
    if "?n \<noteq> []" "to_float (strip (form_price form)) = Some price"
       "to_int (strip (form_quantity form)) = Some quantity"
       "((form_image form = None \<or> form_image form = Some []) \<and> image_path = None) \<or>
        (\<exists>filename. form_image form = Some filename \<and> filename \<noteq> [] \<and>
           lower (rsplit_last filename) \<in> ALLOWED_EXTENSIONS \<and>
           image_path = Some (''uploads/'' @ uuid_hex @ ''.'' @ lower (rsplit_last filename)))"
    for image_path
  proof -
    have "upload_image uuid_hex (form_image form) = Inr image_path"
      using that(4) by (auto simp: upload_image_def Let_def)
    then show ?thesis
      using that(1-3) by (simp add: parsed add_item_with_image_def strip_strip Let_def)
  qed
  show ?thesis
    using a b c d by blast
qed

theorem add_item_validation_witness:
  "add_item example_isnan float_of_text int_of_text ''0f3a''
     \<lparr>form_name = ''  '', form_price = ''2'', form_quantity = ''5'', form_image = None\<rparr>
     catalogue =
     (Inr Item_name_cannot_be_empty, catalogue) \<and>
   add_item example_isnan float_of_text int_of_text ''0f3a''
     \<lparr>form_name = ''Cup'', form_price = ''2.x'', form_quantity = ''5'', form_image = None\<rparr>
     catalogue =
     (Inr Enter_valid_numeric_values, catalogue) \<and>
   add_item example_isnan float_of_text int_of_text ''0f3a''
     \<lparr>form_name = ''Cup'', form_price = ''2'', form_quantity = '' 5'',
      form_image = Some ''cup.v2.PNG''\<rparr> catalogue =
     (Inr (Item_added ''Cup''),
      catalogue\<lparr>inventory := [mug, plate,
                     \<lparr>inv_id = 3, inv_name = ''Cup'', inv_price = Number 2, inv_quantity = 5,
                      inv_image_path = Some ''uploads/0f3a.png'', inv_favorite = 0\<rparr>],
                inventory_seq := 3\<rparr>) \<and>
   add_item example_isnan float_of_text int_of_text ''0f3a''
     \<lparr>form_name = ''Cup'', form_price = ''2'', form_quantity = ''5'',
      form_image = Some ''notes.txt''\<rparr> catalogue =
     (Inr Unsupported_image_type, catalogue) \<and>
   add_item example_isnan float_of_text int_of_text ''0f3a''
     \<lparr>form_name = ''Cup'', form_price = ''nan'', form_quantity = ''5'', form_image = None\<rparr>
     catalogue =
     (Inl IntegrityError, catalogue) \<and>
   add_item example_isnan float_of_text int_of_text ''0f3a''
     \<lparr>form_name = ''Cup'', form_price = ''2'', form_quantity = ''9223372036854775808'',
      form_image = None\<rparr> catalogue =
     (Inl OverflowError, catalogue)"
proof -
  have s: "strip ''  '' = []" "strip ''Cup'' = ''Cup''" "strip ''2'' = ''2''" "strip ''5'' = ''5''"
    "strip '' 5'' = ''5''" "strip ''2.x'' = ''2.x''" "strip ''nan'' = ''nan''"
    "strip ''9223372036854775808'' = ''9223372036854775808''"
    by (simp_all add: strip_def isspace_def)
  have p: "float_of_text ''2'' = Some (Number 2)" "float_of_text ''2.x'' = None"
    "float_of_text ''nan'' = Some Not_a_number"
    "int_of_text ''5'' = Some 5" "int_of_text ''9223372036854775808'' = Some 9223372036854775808"
    by (simp_all add: float_of_text_def int_of_text_def)
  have e: "lower (rsplit_last ''cup.v2.PNG'') = ''png''" "lower (rsplit_last ''notes.txt'') = ''txt''"
    by code_simp+
  have m: "''png'' \<in> ALLOWED_EXTENSIONS" "''txt'' \<notin> ALLOWED_EXTENSIONS"
    by (simp_all add: ALLOWED_EXTENSIONS_def)
  have q: "sqlite_integer 5" "\<not> sqlite_integer 9223372036854775808"
    by (simp_all add: sqlite_integer_def)
  have f: "\<not> example_isnan (Number 2)" "example_isnan Not_a_number"
    by (simp_all add: example_isnan_def)
  have n: "next_rowid (inventory_seq catalogue) [inv_id mug, inv_id plate] = 3"
    "inventory catalogue = [mug, plate]"
    by (simp_all add: next_rowid_def catalogue_def mug_def plate_def)
  have 1: "add_item example_isnan float_of_text int_of_text ''0f3a''
     \<lparr>form_name = ''  '', form_price = ''2'', form_quantity = ''5'', form_image = None\<rparr>
     catalogue = (Inr Item_name_cannot_be_empty, catalogue)"
    using add_item_validation [where form = "\<lparr>form_name = ''  '', form_price = ''2'',
          form_quantity = ''5'', form_image = None\<rparr>" and isnan = example_isnan
          and to_float = float_of_text and to_int = int_of_text and uuid_hex = "''0f3a''"
          and db = catalogue]
    by (simp add: s)
  have 2: "add_item example_isnan float_of_text int_of_text ''0f3a''
     \<lparr>form_name = ''Cup'', form_price = ''2.x'', form_quantity = ''5'', form_image = None\<rparr>
     catalogue = (Inr Enter_valid_numeric_values, catalogue)"
    using add_item_validation [where form = "\<lparr>form_name = ''Cup'', form_price = ''2.x'',
          form_quantity = ''5'', form_image = None\<rparr>" and isnan = example_isnan
          and to_float = float_of_text and to_int = int_of_text and uuid_hex = "''0f3a''"
          and db = catalogue]
    by (simp add: s p)
  have 3: "add_item example_isnan float_of_text int_of_text ''0f3a''
     \<lparr>form_name = ''Cup'', form_price = ''2'', form_quantity = '' 5'',
      form_image = Some ''cup.v2.PNG''\<rparr> catalogue =
     (Inr (Item_added ''Cup''),
      catalogue\<lparr>inventory := [mug, plate,
                     \<lparr>inv_id = 3, inv_name = ''Cup'', inv_price = Number 2, inv_quantity = 5,
                      inv_image_path = Some ''uploads/0f3a.png'', inv_favorite = 0\<rparr>],
                inventory_seq := 3\<rparr>)"
    using add_item_validation [where form = "\<lparr>form_name = ''Cup'', form_price = ''2'',
          form_quantity = '' 5'', form_image = Some ''cup.v2.PNG''\<rparr>" and isnan = example_isnan
          and to_float = float_of_text and to_int = int_of_text and uuid_hex = "''0f3a''"
          and db = catalogue and price = "Number 2" and quantity = 5]
    by (simp add: s p e m q f n)
  have 4: "add_item example_isnan float_of_text int_of_text ''0f3a''
     \<lparr>form_name = ''Cup'', form_price = ''2'', form_quantity = ''5'',
      form_image = Some ''notes.txt''\<rparr> catalogue =
     (Inr Unsupported_image_type, catalogue)"
    using add_item_validation [where form = "\<lparr>form_name = ''Cup'', form_price = ''2'',
          form_quantity = ''5'', form_image = Some ''notes.txt''\<rparr>" and isnan = example_isnan
          and to_float = float_of_text and to_int = int_of_text and uuid_hex = "''0f3a''"
          and db = catalogue and price = "Number 2" and quantity = 5]
    by (simp add: s p e m)
  have 5: "add_item example_isnan float_of_text int_of_text ''0f3a''
     \<lparr>form_name = ''Cup'', form_price = ''nan'', form_quantity = ''5'', form_image = None\<rparr>
     catalogue = (Inl IntegrityError, catalogue)"
    using add_item_validation [where form = "\<lparr>form_name = ''Cup'', form_price = ''nan'',
          form_quantity = ''5'', form_image = None\<rparr>" and isnan = example_isnan
          and to_float = float_of_text and to_int = int_of_text and uuid_hex = "''0f3a''"
          and db = catalogue and price = Not_a_number and quantity = 5]
    by (simp add: s p q f)
  have 6: "add_item example_isnan float_of_text int_of_text ''0f3a''
     \<lparr>form_name = ''Cup'', form_price = ''2'', form_quantity = ''9223372036854775808'',
      form_image = None\<rparr> catalogue = (Inl OverflowError, catalogue)"
    using add_item_validation [where form = "\<lparr>form_name = ''Cup'', form_price = ''2'',
          form_quantity = ''9223372036854775808'', form_image = None\<rparr>" and isnan = example_isnan
          and to_float = float_of_text and to_int = int_of_text and uuid_hex = "''0f3a''"
          and db = catalogue and price = "Number 2" and quantity = 9223372036854775808]
    by (simp add: s p q)
  show ?thesis
    using 1 2 3 4 5 6 by simp
qed

section \<open>Editing an item\<close>

lemma find_unique_key:
  assumes "distinct (map key rows)" and "find (\<lambda>r. key r = k) rows = Some row"
    and "r \<in> set rows" and "key r = k"
  shows "r = row"
proof -
  have "row \<in> set rows" "key row = k"
    using assms(2) by (auto simp: find_Some_iff)
  with assms(1,3,4) show ?thesis
    by (auto simp: distinct_map dest: inj_onD)
qed

lemma update_item_db_rows:
  "update_item_db isnan db i name price quantity image_path =
     (if name = None \<and> price = None \<and> quantity = None \<and> image_path = None then (None, db)
      else if (\<exists>v. quantity = Some v \<and> \<not> sqlite_integer v) \<or> \<not> sqlite_integer i
      then (Some OverflowError, db)
      else if (\<exists>v. price = Some v \<and> isnan v) \<and> select_item db i \<noteq> None
      then (Some IntegrityError, db)
      else
        (None,
         db\<lparr>inventory :=
              map (\<lambda>r. if inv_id r = i
                        then r\<lparr>inv_name := (case name of None \<Rightarrow> inv_name r | Some v \<Rightarrow> strip v),
                               inv_price := (case price of None \<Rightarrow> inv_price r | Some v \<Rightarrow> v),
                               inv_quantity :=
                                 (case quantity of None \<Rightarrow> inv_quantity r | Some v \<Rightarrow> v),
                               inv_image_path :=
                                 (case image_path of
                                    None \<Rightarrow> inv_image_path r | Some v \<Rightarrow> Some v)\<rparr>
                        else r) (inventory db)\<rparr>))"
  by (cases name; cases price; cases quantity; cases image_path)
     (simp_all add: update_item_db_def update_where_def cong: if_cong)

lemma update_item_rows:
  assumes "distinct (map inv_id (inventory db))"
  shows "update_item isnan db i name price quantity =
     (if \<not> sqlite_integer i then (Inl OverflowError, db)
      else
        (case select_item db i of
           None \<Rightarrow> (Inr (No_item_found i), db)
         | Some row \<Rightarrow>
             if \<not> sqlite_integer (case quantity of None \<Rightarrow> inv_quantity row | Some v \<Rightarrow> v)
             then (Inl OverflowError, db)
             else if isnan (case price of None \<Rightarrow> inv_price row | Some v \<Rightarrow> v)
             then (Inl IntegrityError, db)
             else
               (Inr (Item_updated i),
                db\<lparr>inventory :=
                     map (\<lambda>r. if inv_id r = i
                               then r\<lparr>inv_name :=
                                        (case name of
                                           None \<Rightarrow> inv_name r
                                         | Some v \<Rightarrow> if v = [] then inv_name r else strip v),
                                      inv_price :=
                                        (case price of None \<Rightarrow> inv_price r | Some v \<Rightarrow> v),
                                      inv_quantity :=
                                        (case quantity of None \<Rightarrow> inv_quantity r | Some v \<Rightarrow> v)\<rparr>
                               else r) (inventory db)\<rparr>)))"
proof (cases "select_item db i")
  case None
  then show ?thesis
    by (simp add: update_item_def)
next
  case (Some row)
  have same: "r = row" if "r \<in> set (inventory db)" "inv_id r = i" for r
    using assms Some that unfolding select_item_def by (rule find_unique_key)
  have "update_where (\<lambda>r. inv_id r = i)
          (\<lambda>r. r\<lparr>inv_name := (case name of
                                 None \<Rightarrow> inv_name row
                               | Some v \<Rightarrow> if v \<noteq> [] then strip v else inv_name row),
                 inv_price := (case price of None \<Rightarrow> inv_price row | Some v \<Rightarrow> v),
                 inv_quantity := (case quantity of None \<Rightarrow> inv_quantity row | Some v \<Rightarrow> v)\<rparr>)
          (inventory db) =
        map (\<lambda>r. if inv_id r = i
                  then r\<lparr>inv_name := (case name of
                                         None \<Rightarrow> inv_name r
                                       | Some v \<Rightarrow> if v = [] then inv_name r else strip v),
                         inv_price := (case price of None \<Rightarrow> inv_price r | Some v \<Rightarrow> v),
                         inv_quantity := (case quantity of None \<Rightarrow> inv_quantity r | Some v \<Rightarrow> v)\<rparr>
                  else r) (inventory db)"
    unfolding update_where_def
    by (rule map_cong) (auto dest: same split: option.splits)
  with Some show ?thesis
    by (simp add: update_item_def Let_def)
qed

text \<open>
  Claim C10 says that a supplied field changes to the supplied value.  Both functions store
  the name with the white space at its ends removed: the name \<^verbatim>\<open>" Chai "\<close> becomes
  \<^verbatim>\<open>"Chai"\<close>.
\<close>

theorem update_item_name_counterexample:
  "update_item_db example_isnan catalogue 1 (Some '' Chai '') None None None =
     (None, catalogue\<lparr>inventory := [mug\<lparr>inv_name := ''Chai''\<rparr>, plate]\<rparr>) \<and>
   update_item example_isnan catalogue 1 (Some '' Chai '') None None =
     (Inr (Item_updated 1), catalogue\<lparr>inventory := [mug\<lparr>inv_name := ''Chai''\<rparr>, plate]\<rparr>) \<and>
   ''Chai'' \<noteq> '' Chai ''"
  by (simp add: update_item_db_def update_item_def select_item_def update_where_def
      strip_def isspace_def sqlite_integer_def example_isnan_def catalogue_def mug_def plate_def)

text \<open>
  Claim C10, amended.  With unique item ids, an edit rewrites the rows of the given id and
  nothing else: no other inventory row, no sale, no counter.  In such a row a supplied
  price, quantity or image path replaces the old one, a supplied name replaces the old
  one after trimming, and a column that is not supplied keeps its value, as do the id and
  the favorite flag.  The database refuses the edit, and nothing changes, when a quantity
  or the id has not 64 bits (\<^verbatim>\<open>OverflowError\<close>) and when the price is not a number and a row
  has the id (\<^verbatim>\<open>IntegrityError\<close>).  The text menu's \<open>update_item\<close> has no image path, takes
  an empty name as not supplied, and reports an id that no row has.
\<close>

theorem update_item_frame:
  assumes "distinct (map inv_id (inventory db))"
  shows "update_item_db isnan db i name price quantity image_path =
           (if name = None \<and> price = None \<and> quantity = None \<and> image_path = None then (None, db)
            else if (\<exists>v. quantity = Some v \<and> \<not> sqlite_integer v) \<or> \<not> sqlite_integer i
            then (Some OverflowError, db)
            else if (\<exists>v. price = Some v \<and> isnan v) \<and> select_item db i \<noteq> None
            then (Some IntegrityError, db)
            else
              (None,
               db\<lparr>inventory :=
                    map (\<lambda>r. if inv_id r = i
                              then r\<lparr>inv_name :=
                                       (case name of None \<Rightarrow> inv_name r | Some v \<Rightarrow> strip v),
                                     inv_price :=
                                       (case price of None \<Rightarrow> inv_price r | Some v \<Rightarrow> v),
                                     inv_quantity :=
                                       (case quantity of None \<Rightarrow> inv_quantity r | Some v \<Rightarrow> v),
                                     inv_image_path :=
                                       (case image_path of
                                          None \<Rightarrow> inv_image_path r | Some v \<Rightarrow> Some v)\<rparr>
                              else r) (inventory db)\<rparr>)) \<and>
         update_item isnan db i name price quantity =
           (if \<not> sqlite_integer i then (Inl OverflowError, db)
            else
              (case select_item db i of
                 None \<Rightarrow> (Inr (No_item_found i), db)
               | Some row \<Rightarrow>
                   if \<not> sqlite_integer (case quantity of None \<Rightarrow> inv_quantity row | Some v \<Rightarrow> v)
                   then (Inl OverflowError, db)
                   else if isnan (case price of None \<Rightarrow> inv_price row | Some v \<Rightarrow> v)
                   then (Inl IntegrityError, db)
                   else
                     (Inr (Item_updated i),
                      db\<lparr>inventory :=
                           map (\<lambda>r. if inv_id r = i
                                     then r\<lparr>inv_name :=
                                              (case name of
                                                 None \<Rightarrow> inv_name r
                                               | Some v \<Rightarrow> if v = [] then inv_name r else strip v),
                                            inv_price :=
                                              (case price of None \<Rightarrow> inv_price r | Some v \<Rightarrow> v),
                                            inv_quantity :=
                                              (case quantity of
                                                 None \<Rightarrow> inv_quantity r | Some v \<Rightarrow> v)\<rparr>
                                     else r) (inventory db)\<rparr>)))"
  using update_item_db_rows [of isnan db i name price quantity image_path]
    update_item_rows [OF assms, of isnan i name price quantity]
  by (rule conjI)

theorem update_item_frame_witness:
  "distinct (map inv_id (inventory catalogue)) \<and>
   update_item_db example_isnan catalogue 2 (Some '' Dish'') None (Some 9) None =
     (None, catalogue\<lparr>inventory := [mug, plate\<lparr>inv_name := ''Dish'', inv_quantity := 9\<rparr>]\<rparr>) \<and>
   update_item_db example_isnan catalogue 2 None (Some Not_a_number) None None =
     (Some IntegrityError, catalogue) \<and>
   update_item_db example_isnan catalogue 2 None None (Some 9223372036854775808) None =
     (Some OverflowError, catalogue) \<and>
   update_item example_isnan catalogue 2 (Some []) (Some (Number 7)) None =
     (Inr (Item_updated 2), catalogue\<lparr>inventory := [mug, plate\<lparr>inv_price := Number 7\<rparr>]\<rparr>) \<and>
   update_item example_isnan catalogue 2 None (Some Not_a_number) None =
     (Inl IntegrityError, catalogue)"
proof -
  have d: "distinct (map inv_id (inventory catalogue))"
    by (simp add: catalogue_def mug_def plate_def)
  have s: "strip '' Dish'' = ''Dish''"
    by (simp add: strip_def isspace_def)
  have i: "inventory catalogue = [mug, plate]" "inv_id mug = 1" "inv_id plate = 2"
    "inv_quantity plate = 5" "inv_price plate = Number 6"
    by (simp_all add: catalogue_def mug_def plate_def)
  have f: "select_item catalogue 2 = Some plate"
    by (simp add: select_item_def i)
  have q: "sqlite_integer 2" "sqlite_integer 5" "sqlite_integer 9"
    "\<not> sqlite_integer 9223372036854775808"
    by (simp_all add: sqlite_integer_def)
  have n: "example_isnan Not_a_number" "\<not> example_isnan (Number 7)"
    by (simp_all add: example_isnan_def)
  from update_item_frame [OF d, of example_isnan 2 "Some '' Dish''" None "Some 9" None]
    update_item_frame [OF d, of example_isnan 2 None "Some Not_a_number" None None]
    update_item_frame [OF d, of example_isnan 2 None None "Some 9223372036854775808" None]
    update_item_frame [OF d, of example_isnan 2 "Some []" "Some (Number 7)" None None]
  show ?thesis
    using d by (simp add: s i f q n)
qed

end
